theory Spec2Isabelle
  imports Complex_Main "HOL-Library.Word" "HOL-Library.AList"
begin

unbundle bit_operations_syntax

section \<open>Python values, exceptions and dictionaries\<close>

text \<open>
  The driver of \<^verbatim>\<open>pycomm3/slc.py\<close> works on Python strings, byte strings, integers,
  floats, lists and dictionaries. Each is modelled by the matching HOL type. The module
  makes a float in two places, \<^verbatim>\<open>n / 16\<close> with \<open>0 \<le> n \<le> 4095\<close> and \<^verbatim>\<open>math.pow(2, k)\<close>,
  and both are exact in binary floating point; a float that a caller passes in is only
  compared with 0 or handed to a packing function. So a float is modelled by the
  rational number it denotes.
\<close>

type_synonym byte = "8 word"
type_synonym bytes = "byte list"

datatype pyval =
    VNone
  | VBool bool
  | VInt int
  | VFloat rat
  | VStr string
  | VBytes bytes
  | VList "pyval list"

datatype exn =
    RequestError
  | DataError
  | IndexError
  | KeyError
  | TypeError
  | ValueError
  | StructError
  | OverflowError
  | AttributeError

text \<open>
  A Python \<^verbatim>\<open>dict\<close> with string keys, in insertion order: an association list.
  \<^verbatim>\<open>d.get(k)\<close> is \<open>map_of d k\<close>, \<^verbatim>\<open>d[k]\<close> raises \<^verbatim>\<open>KeyError\<close> on a missing key and
  \<^verbatim>\<open>d[k] = v\<close> is \<open>AList.update k v d\<close>.
\<close>

type_synonym pydict = "(string \<times> pyval) list"

definition dget :: "pydict \<Rightarrow> string \<Rightarrow> pyval \<Rightarrow> pyval" where
  "dget d k dflt = (case map_of d k of None \<Rightarrow> dflt | Some v \<Rightarrow> v)"

definition ditem :: "pydict \<Rightarrow> string \<Rightarrow> exn + pyval" where
  "ditem d k = (case map_of d k of None \<Rightarrow> Inl KeyError | Some v \<Rightarrow> Inr v)"

text \<open>Sequencing of computations that may raise: the first exception wins.\<close>

definition bindE :: "exn + 'a \<Rightarrow> ('a \<Rightarrow> exn + 'b) \<Rightarrow> exn + 'b" where
  "bindE m f = (case m of Inl e \<Rightarrow> Inl e | Inr v \<Rightarrow> f v)"

section \<open>Strings\<close>

text \<open>
  Python strings are sequences of Unicode code points; the model works on \<open>char list\<close>,
  that is, on the 8-bit characters, which covers every ASCII address. Case mapping is the
  ASCII one.
\<close>

definition lower_char :: "char \<Rightarrow> char" where
  "lower_char c =
     (let n = (of_char c :: nat) in if 65 \<le> n \<and> n \<le> 90 then char_of (n + 32) else c)"

definition upper_char :: "char \<Rightarrow> char" where
  "upper_char c =
     (let n = (of_char c :: nat) in if 97 \<le> n \<and> n \<le> 122 then char_of (n - 32) else c)"

definition is_digit :: "char \<Rightarrow> bool" where
  "is_digit c = (let n = (of_char c :: nat) in 48 \<le> n \<and> n \<le> 57)"

definition str_upper :: "string \<Rightarrow> string" where
  "str_upper s = map upper_char s"

definition str_lower :: "string \<Rightarrow> string" where
  "str_lower s = map lower_char s"

text \<open>The value of a string of decimal digits, most significant digit first.\<close>

definition digits_value :: "string \<Rightarrow> int" where
  "digits_value s = foldl (\<lambda>acc c. 10 * acc + (int (of_char c) - 48)) 0 s"

text \<open>
  \<^verbatim>\<open>s.replace(old, new)\<close>: the non-overlapping occurrences of \<open>old\<close> are replaced from
  left to right. With an empty \<open>old\<close> Python puts \<open>new\<close> before every character and at
  the end.
\<close>

function replace_from :: "string \<Rightarrow> string \<Rightarrow> string \<Rightarrow> string" where
  "replace_from old new s =
     (if old = [] \<or> s = [] then s
      else if take (length old) s = old then new @ replace_from old new (drop (length old) s)
      else hd s # replace_from old new (tl s))"
  by pat_completeness auto
termination
  by (relation "measure (\<lambda>(old, new, s). length s)") auto

definition str_replace :: "string \<Rightarrow> string \<Rightarrow> string \<Rightarrow> string" where
  "str_replace s old new =
     (if old = [] then new @ concat (map (\<lambda>c. c # new) s) else replace_from old new s)"

section \<open>Built-in conversions and tests\<close>

text \<open>
  \<^verbatim>\<open>int(x)\<close>: a float is truncated towards zero and a string of decimal digits is read
  as a number; \<^verbatim>\<open>int(None)\<close> and \<^verbatim>\<open>int\<close> of a list raise \<^verbatim>\<open>TypeError\<close>. The strings that
  reach \<^verbatim>\<open>int\<close> in this module are regular-expression groups made of digits; any other
  string is taken to raise \<^verbatim>\<open>ValueError\<close> (signs, blanks and underscores are not
  modelled).
\<close>

definition trunc_rat :: "rat \<Rightarrow> int" where
  "trunc_rat q = (if 0 \<le> q then \<lfloor>q\<rfloor> else \<lceil>q\<rceil>)"

fun py_int :: "pyval \<Rightarrow> exn + int" where
  "py_int (VInt n) = Inr n"
| "py_int (VBool b) = Inr (if b then 1 else 0)"
| "py_int (VFloat q) = Inr (trunc_rat q)"
| "py_int (VStr s) = (if s \<noteq> [] \<and> list_all is_digit s then Inr (digits_value s) else Inl ValueError)"
| "py_int (VBytes b) = Inl ValueError"
| "py_int VNone = Inl TypeError"
| "py_int (VList xs) = Inl TypeError"

text \<open>Truth value of an object, as used by \<^verbatim>\<open>if x\<close>, \<^verbatim>\<open>x or y\<close> and \<^verbatim>\<open>x and y\<close>.\<close>

fun truthy :: "pyval \<Rightarrow> bool" where
  "truthy VNone = False"
| "truthy (VBool b) = b"
| "truthy (VInt n) = (n \<noteq> 0)"
| "truthy (VFloat q) = (q \<noteq> 0)"
| "truthy (VStr s) = (s \<noteq> [])"
| "truthy (VBytes b) = (b \<noteq> [])"
| "truthy (VList xs) = (xs \<noteq> [])"

definition py_or :: "pyval \<Rightarrow> pyval \<Rightarrow> pyval" where
  "py_or x y = (if truthy x then x else y)"

section \<open>Regular expressions\<close>

text \<open>
  The fragment of Python's \<^verbatim>\<open>re\<close> that \<^verbatim>\<open>parse_tag\<close> uses, always under
  \<^verbatim>\<open>re.IGNORECASE\<close>: character classes, literals, greedy bounded repetition of a
  class, sequence, ordered alternation, greedy optional parts, and plain and named
  groups. \<open>rmatch r s cs\<close> lists every way in which \<open>r\<close> matches a prefix of \<open>s\<close>, as
  the rest of the input and the groups captured, in the order in which the backtracking
  matcher tries them; the head of the list is the match Python reports.
\<close>

datatype cclass = Digit | AnyChar | OneOf string

fun cc_match :: "cclass \<Rightarrow> char \<Rightarrow> bool" where
  "cc_match Digit c = is_digit c"
| "cc_match AnyChar c = (c \<noteq> CHR 0x0A)"
| "cc_match (OneOf cs) c = (lower_char c \<in> set (map lower_char cs))"

datatype regex =
    Chr cclass
  | Lit string
  | Rep cclass nat "nat option"
  | Seq "regex list"
  | Alt "regex list"
  | Opt regex
  | Group regex
  | Named string regex

type_synonym caps = "(string \<times> string) list"

fun lit_match :: "string \<Rightarrow> string \<Rightarrow> string option" where
  "lit_match [] s = Some s"
| "lit_match (p # ps) [] = None"
| "lit_match (p # ps) (c # cs) =
     (if lower_char p = lower_char c then lit_match ps cs else None)"

fun rmatch :: "regex \<Rightarrow> string \<Rightarrow> caps \<Rightarrow> (string \<times> caps) list" where
  "rmatch (Chr cc) s cs =
     (case s of [] \<Rightarrow> [] | c # rest \<Rightarrow> if cc_match cc c then [(rest, cs)] else [])"
| "rmatch (Lit p) s cs = (case lit_match p s of None \<Rightarrow> [] | Some rest \<Rightarrow> [(rest, cs)])"
| "rmatch (Rep cc lo hi) s cs =
     (let run = length (takeWhile (cc_match cc) s);
          most = (case hi of None \<Rightarrow> run | Some h \<Rightarrow> min h run)
      in map (\<lambda>k. (drop k s, cs)) (rev [lo ..< Suc most]))"
| "rmatch (Seq []) s cs = [(s, cs)]"
| "rmatch (Seq (r # rs)) s cs =
     concat (map (\<lambda>(s', cs'). rmatch (Seq rs) s' cs') (rmatch r s cs))"
| "rmatch (Alt []) s cs = []"
| "rmatch (Alt (r # rs)) s cs = rmatch r s cs @ rmatch (Alt rs) s cs"
| "rmatch (Opt r) s cs = rmatch r s cs @ [(s, cs)]"
| "rmatch (Group r) s cs = rmatch r s cs"
| "rmatch (Named n r) s cs =
     map (\<lambda>(s', cs'). (s', AList.update n (take (length s - length s') s) cs'))
       (rmatch r s cs)"

fun group_names :: "regex \<Rightarrow> string list" where
  "group_names (Chr cc) = []"
| "group_names (Lit p) = []"
| "group_names (Rep cc lo hi) = []"
| "group_names (Seq rs) = concat (map group_names rs)"
| "group_names (Alt rs) = concat (map group_names rs)"
| "group_names (Opt r) = group_names r"
| "group_names (Group r) = group_names r"
| "group_names (Named n r) = n # group_names r"

text \<open>
  A match object: the names of the pattern's groups, the text matched (\<^verbatim>\<open>group(0)\<close>)
  and the groups that took part in the match.
\<close>

record match_obj =
  m_names :: "string list"
  m_whole :: string
  m_caps :: caps

text \<open>\<^verbatim>\<open>re.search\<close>: the match at the leftmost position where the pattern matches.\<close>

fun re_search :: "regex \<Rightarrow> string \<Rightarrow> match_obj option" where
  "re_search r [] =
     (case rmatch r [] [] of
        [] \<Rightarrow> None
      | (rest, cs) # _ \<Rightarrow> Some \<lparr>m_names = group_names r, m_whole = [], m_caps = cs\<rparr>)"
| "re_search r (c # s) =
     (case rmatch r (c # s) [] of
        [] \<Rightarrow> re_search r s
      | (rest, cs) # _ \<Rightarrow>
          Some \<lparr>m_names = group_names r,
                m_whole = take (length (c # s) - length rest) (c # s),
                m_caps = cs\<rparr>)"

text \<open>
  \<^verbatim>\<open>t.group(name)\<close>: \<^verbatim>\<open>IndexError\<close> when the pattern has no group of that name,
  \<^verbatim>\<open>None\<close> when the group took no part in the match.
\<close>

definition group :: "match_obj \<Rightarrow> string \<Rightarrow> exn + pyval" where
  "group t n =
     (if n \<in> set (m_names t)
      then Inr (case map_of (m_caps t) n of None \<Rightarrow> VNone | Some s \<Rightarrow> VStr s)
      else Inl IndexError)"

definition group_int :: "match_obj \<Rightarrow> string \<Rightarrow> exn + int" where
  "group_int t n = bindE (group t n) py_int"

text \<open>\<^verbatim>\<open>t.group(name).upper()\<close>; \<^verbatim>\<open>None\<close> has no such method.\<close>

definition group_upper :: "match_obj \<Rightarrow> string \<Rightarrow> exn + pyval" where
  "group_upper t n =
     bindE (group t n)
       (\<lambda>v. case v of VStr s \<Rightarrow> Inr (VStr (str_upper s)) | _ \<Rightarrow> Inl AttributeError)"

section \<open>Parsing of data file addresses\<close>

text \<open>The seven patterns of \<^verbatim>\<open>parse_tag\<close>, in the order in which they are tried.\<close>

definition count_token :: "regex \<Rightarrow> regex" where
  "count_token digits =
     Opt (Named ''_elem_cnt_token'' (Seq [Lit ''{'', Named ''element_count'' digits, Lit ''}'']))"

definition bit_suffix :: regex where
  "bit_suffix = Opt (Group (Seq [Lit ''/'', Named ''sub_element'' (Rep Digit 1 (Some 2))]))"

definition re_timer_counter :: regex where
  "re_timer_counter =
     Seq [Named ''file_type'' (Chr (OneOf ''CT'')),
          Named ''file_number'' (Rep Digit 1 (Some 3)),
          Group (Lit '':''),
          Named ''element_number'' (Rep Digit 1 (Some 3)),
          Group (Chr AnyChar),
          Named ''sub_element''
            (Alt [Lit ''ACC'', Lit ''PRE'', Lit ''EN'', Lit ''DN'', Lit ''TT'', Lit ''CU'',
                  Lit ''CD'', Lit ''DN'', Lit ''OV'', Lit ''UN'', Lit ''UA''])]"

definition re_word :: regex where
  "re_word =
     Seq [Named ''file_type'' (Chr (OneOf ''LFBN'')),
          Named ''file_number'' (Rep Digit 1 (Some 3)),
          Group (Lit '':''),
          Named ''element_number'' (Rep Digit 1 (Some 3)),
          bit_suffix,
          count_token (Rep Digit 1 None)]"

definition re_io :: regex where
  "re_io =
     Seq [Named ''file_type'' (Chr (OneOf ''IO'')),
          Group (Lit '':''),
          Named ''element_number'' (Rep Digit 1 (Some 3)),
          Group (Chr AnyChar),
          Named ''position_number'' (Rep Digit 1 (Some 3)),
          bit_suffix,
          count_token (Rep Digit 1 None)]"

definition re_string :: regex where
  "re_string =
     Seq [Named ''file_type'' (Lit ''ST''),
          Named ''file_number'' (Rep Digit 1 (Some 3)),
          Group (Lit '':''),
          Named ''element_number'' (Rep Digit 1 (Some 4)),
          count_token (Chr (OneOf ''12''))]"

definition re_ascii :: regex where
  "re_ascii =
     Seq [Named ''file_type'' (Lit ''A''),
          Named ''file_number'' (Rep Digit 1 (Some 3)),
          Group (Lit '':''),
          Named ''element_number'' (Rep Digit 1 (Some 4)),
          count_token (Rep Digit 1 None)]"

definition re_status :: regex where
  "re_status =
     Seq [Named ''file_type'' (Lit ''S''),
          Group (Lit '':''),
          Named ''element_number'' (Rep Digit 1 (Some 3)),
          bit_suffix,
          count_token (Rep Digit 1 None)]"

definition re_binary_bit :: regex where
  "re_binary_bit =
     Seq [Named ''file_type'' (Lit ''B''),
          Named ''file_number'' (Rep Digit 1 (Some 3)),
          Group (Lit ''/''),
          Named ''element_number'' (Rep Digit 1 (Some 4)),
          count_token (Rep Digit 1 None)]"

text \<open>
  A dictionary display \<^verbatim>\<open>{k1: e1, k2: e2, ...}\<close>: the values are computed from left to
  right and the first exception ends the construction.
\<close>

fun mkdict :: "(string \<times> (exn + pyval)) list \<Rightarrow> exn + pydict" where
  "mkdict [] = Inr []"
| "mkdict ((k, e) # kes) = bindE e (\<lambda>v. bindE (mkdict kes) (\<lambda>d. Inr ((k, v) # d)))"

definition return_dict :: "(string \<times> (exn + pyval)) list \<Rightarrow> exn + pydict option" where
  "return_dict kes = bindE (mkdict kes) (\<lambda>d. Inr (Some d))"

text \<open>
  \<^verbatim>\<open>_cnt = t.group('_elem_cnt_token')\<close> and
  \<^verbatim>\<open>tag_name = t.group(0).replace(_cnt, '') if _cnt else t.group(0)\<close>.
\<close>

definition tag_name :: "match_obj \<Rightarrow> exn + pyval" where
  "tag_name t =
     bindE (group t ''_elem_cnt_token'')
       (\<lambda>cnt. case cnt of
                 VStr c \<Rightarrow> Inr (VStr (if c \<noteq> [] then str_replace (m_whole t) c [] else m_whole t))
               | _ \<Rightarrow> Inr (VStr (m_whole t)))"

text \<open>
  \<^verbatim>\<open>element_count = t.group('element_count')\<close> and
  \<^verbatim>\<open>int(element_count) if element_count is not None else 1\<close>.
\<close>

definition element_count_of :: "match_obj \<Rightarrow> exn + pyval" where
  "element_count_of t =
     bindE (group t ''element_count'')
       (\<lambda>ec. if ec \<noteq> VNone then bindE (py_int ec) (\<lambda>n. Inr (VInt n)) else Inr (VInt 1))"

text \<open>
  Each rule returns \<open>Inr (Some d)\<close> where the source returns the dictionary \<open>d\<close>,
  \<open>Inr None\<close> where control falls through to the next \<^verbatim>\<open>re.search\<close>, and \<open>Inl e\<close> where
  an exception leaves \<^verbatim>\<open>parse_tag\<close>. The table \<^verbatim>\<open>PCCC_CT\<close> of \<^verbatim>\<open>const.py\<close>, from the names
  of the timer and counter fields to their numbers, is a parameter.
\<close>

definition rule_timer_counter :: "(string \<times> int) list \<Rightarrow> string \<Rightarrow> exn + pydict option" where
  "rule_timer_counter PCCC_CT tag =
     (case re_search re_timer_counter tag of
        None \<Rightarrow> Inr None
      | Some t \<Rightarrow>
          bindE (group_int t ''file_number'') (\<lambda>fno.
            if 1 \<le> fno \<and> fno \<le> 255 then
              bindE (group_int t ''element_number'') (\<lambda>eno.
                if 0 \<le> eno \<and> eno \<le> 255 then
                  return_dict
                    [(''file_type'', group_upper t ''file_type''),
                     (''file_number'', group t ''file_number''),
                     (''element_number'', group t ''element_number''),
                     (''sub_element'',
                        bindE (group_upper t ''sub_element'')
                          (\<lambda>v. case v of
                                  VStr n \<Rightarrow> (case map_of PCCC_CT n of
                                               None \<Rightarrow> Inl KeyError
                                             | Some i \<Rightarrow> Inr (VInt i))
                                | _ \<Rightarrow> Inl KeyError)),
                     (''address_field'', Inr (VInt 3)),
                     (''element_count'', Inr (VInt 1)),
                     (''tag'', Inr (VStr (m_whole t)))]
                else Inr None)
            else Inr None))"

definition rule_word :: "string \<Rightarrow> exn + pydict option" where
  "rule_word tag =
     (case re_search re_word tag of
        None \<Rightarrow> Inr None
      | Some t \<Rightarrow>
          bindE (tag_name t) (\<lambda>tname.
          bindE (group t ''sub_element'') (\<lambda>sub.
            if sub \<noteq> VNone then
              bindE (group_int t ''file_number'') (\<lambda>fno.
                if 1 \<le> fno \<and> fno \<le> 255 then
                  bindE (group_int t ''element_number'') (\<lambda>eno.
                    if 0 \<le> eno \<and> eno \<le> 255 then
                      bindE (group_int t ''sub_element'') (\<lambda>bit.
                        if 0 \<le> bit \<and> bit \<le> 15 then
                          return_dict
                            [(''file_type'', group_upper t ''file_type''),
                             (''file_number'', group t ''file_number''),
                             (''element_number'', group t ''element_number''),
                             (''sub_element'', group t ''sub_element''),
                             (''address_field'', Inr (VInt 3)),
                             (''element_count'', element_count_of t),
                             (''tag'', Inr tname)]
                        else Inr None)
                    else Inr None)
                else Inr None)
            else
              bindE (group_int t ''file_number'') (\<lambda>fno.
                if 1 \<le> fno \<and> fno \<le> 255 then
                  bindE (group_int t ''element_number'') (\<lambda>eno.
                    if 0 \<le> eno \<and> eno \<le> 255 then
                      return_dict
                        [(''file_type'', group_upper t ''file_type''),
                         (''file_number'', group t ''file_number''),
                         (''element_number'', group t ''element_number''),
                         (''sub_element'', group t ''sub_element''),
                         (''address_field'', Inr (VInt 2)),
                         (''element_count'', element_count_of t),
                         (''tag'', Inr tname)]
                    else Inr None)
                else Inr None))))"

text \<open>
  In the bit form of the input and output rule the source reads
  \<^verbatim>\<open>t.group('file_number')\<close>, a group that the pattern does not have.
\<close>

definition rule_io :: "string \<Rightarrow> exn + pydict option" where
  "rule_io tag =
     (case re_search re_io tag of
        None \<Rightarrow> Inr None
      | Some t \<Rightarrow>
          bindE (tag_name t) (\<lambda>tname.
          bindE (group t ''sub_element'') (\<lambda>sub.
            if sub \<noteq> VNone then
              bindE (group_int t ''file_number'') (\<lambda>fno.
                if 0 \<le> fno \<and> fno \<le> 255 then
                  bindE (group_int t ''element_number'') (\<lambda>eno.
                    if 0 \<le> eno \<and> eno \<le> 255 then
                      bindE (group_int t ''sub_element'') (\<lambda>bit.
                        if 0 \<le> bit \<and> bit \<le> 15 then
                          return_dict
                            [(''file_type'', group_upper t ''file_type''),
                             (''file_number'', Inr (VStr ''0'')),
                             (''element_number'', group t ''element_number''),
                             (''pos_number'', group t ''position_number''),
                             (''sub_element'', group t ''sub_element''),
                             (''address_field'', Inr (VInt 3)),
                             (''element_count'', element_count_of t),
                             (''tag'', Inr tname)]
                        else Inr None)
                    else Inr None)
                else Inr None)
            else
              bindE (group_int t ''element_number'') (\<lambda>eno.
                if 0 \<le> eno \<and> eno \<le> 255 then
                  return_dict
                    [(''file_type'', group_upper t ''file_type''),
                     (''file_number'', Inr (VStr ''0'')),
                     (''element_number'', group t ''element_number''),
                     (''pos_number'', group t ''position_number''),
                     (''address_field'', Inr (VInt 2)),
                     (''element_count'', element_count_of t),
                     (''tag'', Inr tname)]
                else Inr None))))"

text \<open>The string rule and the ASCII rule have the same body and differ in the pattern.\<close>

definition rule_string_like :: "regex \<Rightarrow> string \<Rightarrow> exn + pydict option" where
  "rule_string_like pattern tag =
     (case re_search pattern tag of
        None \<Rightarrow> Inr None
      | Some t \<Rightarrow>
          bindE (group_int t ''file_number'') (\<lambda>fno.
            if 1 \<le> fno \<and> fno \<le> 255 then
              bindE (group_int t ''element_number'') (\<lambda>eno.
                if 0 \<le> eno \<and> eno \<le> 255 then
                  bindE (tag_name t) (\<lambda>tname.
                  bindE (group_int t ''element_number'') (\<lambda>element_number.
                    return_dict
                      [(''file_type'', group_upper t ''file_type''),
                       (''file_number'', group t ''file_number''),
                       (''element_number'', Inr (VInt element_number)),
                       (''address_field'', Inr (VInt 2)),
                       (''element_count'', element_count_of t),
                       (''tag'', Inr tname)]))
                else Inr None)
            else Inr None))"

text \<open>
  In the bit form of the status rule the source stores \<^verbatim>\<open>t.group(0)\<close> under \<^verbatim>\<open>'tag'\<close>,
  in the word form it stores \<^verbatim>\<open>tag_name\<close>.
\<close>

definition rule_status :: "string \<Rightarrow> exn + pydict option" where
  "rule_status tag =
     (case re_search re_status tag of
        None \<Rightarrow> Inr None
      | Some t \<Rightarrow>
          bindE (tag_name t) (\<lambda>tname.
          bindE (group t ''sub_element'') (\<lambda>sub.
            if sub \<noteq> VNone then
              bindE (group_int t ''element_number'') (\<lambda>eno.
                if 0 \<le> eno \<and> eno \<le> 255 then
                  bindE (group_int t ''sub_element'') (\<lambda>bit.
                    if 0 \<le> bit \<and> bit \<le> 15 then
                      return_dict
                        [(''file_type'', group_upper t ''file_type''),
                         (''file_number'', Inr (VStr ''2'')),
                         (''element_number'', group t ''element_number''),
                         (''sub_element'', group t ''sub_element''),
                         (''address_field'', Inr (VInt 3)),
                         (''element_count'', element_count_of t),
                         (''tag'', Inr (VStr (m_whole t)))]
                    else Inr None)
                else Inr None)
            else
              bindE (group_int t ''element_number'') (\<lambda>eno.
                if 0 \<le> eno \<and> eno \<le> 255 then
                  return_dict
                    [(''file_type'', group_upper t ''file_type''),
                     (''file_number'', Inr (VStr ''2'')),
                     (''element_number'', group t ''element_number''),
                     (''address_field'', Inr (VInt 2)),
                     (''element_count'', element_count_of t),
                     (''tag'', Inr tname)]
                else Inr None))))"

text \<open>
  The last rule divides with \<^verbatim>\<open>/\<close>, which in Python 3 is the division of floats:
  \<^verbatim>\<open>element_number = bit_position / 16\<close> and
  \<^verbatim>\<open>sub_element = bit_position - (element_number * 16)\<close>.
\<close>

definition rule_binary_bit :: "string \<Rightarrow> exn + pydict option" where
  "rule_binary_bit tag =
     (case re_search re_binary_bit tag of
        None \<Rightarrow> Inr None
      | Some t \<Rightarrow>
          bindE (group_int t ''file_number'') (\<lambda>fno.
            if 1 \<le> fno \<and> fno \<le> 255 then
              bindE (group_int t ''element_number'') (\<lambda>eno.
                if 0 \<le> eno \<and> eno \<le> 4095 then
                  bindE (tag_name t) (\<lambda>tname.
                  bindE (group_int t ''element_number'') (\<lambda>bit_position.
                    let element_number = (of_int bit_position :: rat) / 16;
                        sub_element = of_int bit_position - element_number * 16
                    in return_dict
                         [(''file_type'', group_upper t ''file_type''),
                          (''file_number'', group t ''file_number''),
                          (''element_number'', Inr (VFloat element_number)),
                          (''sub_element'', Inr (VFloat sub_element)),
                          (''address_field'', Inr (VInt 3)),
                          (''element_count'', element_count_of t),
                          (''tag'', Inr tname)]))
                else Inr None)
            else Inr None))"

fun first_rule :: "(string \<Rightarrow> exn + pydict option) list \<Rightarrow> string \<Rightarrow> exn + pydict option" where
  "first_rule [] tag = Inr None"
| "first_rule (r # rs) tag =
     (case r tag of
        Inl e \<Rightarrow> Inl e
      | Inr (Some d) \<Rightarrow> Inr (Some d)
      | Inr None \<Rightarrow> first_rule rs tag)"

definition parse_tag :: "(string \<times> int) list \<Rightarrow> string \<Rightarrow> exn + pydict option" where
  "parse_tag PCCC_CT tag =
     first_rule
       [rule_timer_counter PCCC_CT, rule_word, rule_io, rule_string_like re_string,
        rule_string_like re_ascii, rule_status, rule_binary_bit]
       tag"

section \<open>Numbers, sequences and packing\<close>

text \<open>The number that a numeric object denotes; \<open>None\<close> for an object that is no number.\<close>

fun py_num :: "pyval \<Rightarrow> rat option" where
  "py_num (VBool b) = Some (if b then 1 else 0)"
| "py_num (VInt n) = Some (of_int n)"
| "py_num (VFloat q) = Some q"
| "py_num VNone = None"
| "py_num (VStr s) = None"
| "py_num (VBytes b) = None"
| "py_num (VList xs) = None"

text \<open>
  \<^verbatim>\<open>x > k\<close>, \<^verbatim>\<open>x == k\<close> for an integer \<open>k\<close>: an object that is no number cannot be ordered
  against an integer (\<^verbatim>\<open>TypeError\<close>) and is not equal to one.
\<close>

definition py_gt :: "pyval \<Rightarrow> int \<Rightarrow> exn + bool" where
  "py_gt x k = (case py_num x of None \<Rightarrow> Inl TypeError | Some q \<Rightarrow> Inr (of_int k < q))"

definition py_eq_int :: "pyval \<Rightarrow> int \<Rightarrow> bool" where
  "py_eq_int x k = (case py_num x of None \<Rightarrow> False | Some q \<Rightarrow> q = of_int k)"

text \<open>\<^verbatim>\<open>len(x)\<close>, iteration over \<open>x\<close> and the slice \<^verbatim>\<open>x[:n]\<close>.\<close>

fun py_len :: "pyval \<Rightarrow> exn + nat" where
  "py_len (VList xs) = Inr (length xs)"
| "py_len (VStr s) = Inr (length s)"
| "py_len (VBytes b) = Inr (length b)"
| "py_len VNone = Inl TypeError"
| "py_len (VBool b) = Inl TypeError"
| "py_len (VInt n) = Inl TypeError"
| "py_len (VFloat q) = Inl TypeError"

fun py_iter :: "pyval \<Rightarrow> exn + pyval list" where
  "py_iter (VList xs) = Inr xs"
| "py_iter (VStr s) = Inr (map (\<lambda>c. VStr [c]) s)"
| "py_iter (VBytes b) = Inr (map (\<lambda>w. VInt (uint w)) b)"
| "py_iter VNone = Inl TypeError"
| "py_iter (VBool b) = Inl TypeError"
| "py_iter (VInt n) = Inl TypeError"
| "py_iter (VFloat q) = Inl TypeError"

definition prefix_len :: "int \<Rightarrow> nat \<Rightarrow> nat" where
  "prefix_len n len = nat (if n < 0 then int len + n else n)"

fun py_prefix :: "pyval \<Rightarrow> pyval \<Rightarrow> exn + pyval" where
  "py_prefix (VList xs) (VInt n) = Inr (VList (take (prefix_len n (length xs)) xs))"
| "py_prefix (VStr s) (VInt n) = Inr (VStr (take (prefix_len n (length s)) s))"
| "py_prefix (VBytes b) (VInt n) = Inr (VBytes (take (prefix_len n (length b)) b))"
| "py_prefix x n = Inl TypeError"

text \<open>
  Modelled from the spec: \<^verbatim>\<open>Pack.usint\<close> and \<^verbatim>\<open>Pack.uint\<close> of \<^verbatim>\<open>bytes_.py\<close>, which is not
  part of the sources. The specification has them produce one unsigned byte and a 2-byte
  little-endian unsigned value, and has a value out of range reported as a packing error,
  never truncated.
\<close>

definition Pack_usint :: "int \<Rightarrow> exn + bytes" where
  "Pack_usint n = (if 0 \<le> n \<and> n < 256 then Inr [word_of_int n] else Inl StructError)"

definition Pack_uint :: "int \<Rightarrow> exn + bytes" where
  "Pack_uint n =
     (if 0 \<le> n \<and> n < 65536 then Inr [word_of_int (n mod 256), word_of_int (n div 256)]
      else Inl StructError)"

text \<open>
  \<^verbatim>\<open>math.pow(2, k)\<close> for an integer \<open>k\<close> is a float: a power of two, exact from
  \<open>2 ^ -1074\<close> to \<open>2 ^ 1023\<close>, zero below and \<^verbatim>\<open>OverflowError\<close> above.
\<close>

definition math_pow2 :: "int \<Rightarrow> exn + rat" where
  "math_pow2 k =
     (if 1024 \<le> k then Inl OverflowError
      else if 0 \<le> k then Inr (2 ^ nat k)
      else if - 1074 \<le> k then Inr (1 / 2 ^ nat (- k))
      else Inr 0)"

text \<open>
  Modelled from the spec: \<^verbatim>\<open>Pack.uint\<close> applied to an object that need not be an integer.
  The specification has \<^verbatim>\<open>Pack.uint\<close> pack an unsigned integer and has a value of the wrong
  type reported as a packing error. A float is of the wrong type, also when it equals an
  integer: the integer formats of \<^verbatim>\<open>struct.pack\<close> refuse every float.
\<close>

definition Pack_uint_of :: "pyval \<Rightarrow> exn + bytes" where
  "Pack_uint_of v =
     (case v of
        VInt n \<Rightarrow> Pack_uint n
      | VBool b \<Rightarrow> Pack_uint (if b then 1 else 0)
      | _ \<Rightarrow> Inl StructError)"

text \<open>\<^verbatim>\<open>b''.join(pack_func(val) for val in value)\<close>: the first failure ends the join.\<close>

fun pack_all :: "(pyval \<Rightarrow> exn + bytes) \<Rightarrow> pyval list \<Rightarrow> exn + bytes" where
  "pack_all pack_func [] = Inr []"
| "pack_all pack_func (v # vs) =
     bindE (pack_func v) (\<lambda>b. bindE (pack_all pack_func vs) (\<lambda>bs. Inr (b @ bs)))"

section \<open>Values to write\<close>

text \<open>
  The tables \<^verbatim>\<open>Pack\<close> (from a name such as \<^verbatim>\<open>pccc_n\<close> to the packing function of a file
  type) and \<^verbatim>\<open>PCCC_CT\<close> are parameters. \<open>bit_write\<close> is the branch \<^verbatim>\<open>if bit_field:\<close> of
  \<^verbatim>\<open>writeable_value\<close>, after \<^verbatim>\<open>tag['data_size'] = 2\<close>: the whole word behind the mask
  \<^verbatim>\<open>0xFFFF\<close> for the \<^verbatim>\<open>PRE\<close> and \<^verbatim>\<open>ACC\<close> fields of a timer or counter, and otherwise
  \<^verbatim>\<open>Pack.uint(math.pow(2, bit_position))\<close> twice, or once and then \<^verbatim>\<open>Pack.uint(0)\<close>.
\<close>

definition bit_write ::
  "(pyval \<Rightarrow> exn + bytes) \<Rightarrow> (string \<times> int) list \<Rightarrow> string \<Rightarrow> int \<Rightarrow> pyval \<Rightarrow> exn + bytes" where
  "bit_write pack_func PCCC_CT file_type bit_position val =
     bindE (if file_type \<in> set [''T'', ''C''] then
              (case map_of PCCC_CT ''PRE'' of
                 None \<Rightarrow> Inl KeyError
               | Some pre \<Rightarrow>
                   (case map_of PCCC_CT ''ACC'' of
                      None \<Rightarrow> Inl KeyError
                    | Some acc \<Rightarrow> Inr (bit_position \<in> set [pre, acc])))
            else Inr False) (\<lambda>whole_word.
       if whole_word then
         bindE (pack_func val) (\<lambda>b. Inr ([0xFF, 0xFF] @ b))
       else
         bindE (py_gt val 0) (\<lambda>positive.
           if positive then
             bindE (math_pow2 bit_position) (\<lambda>p1.
             bindE (Pack_uint_of (VFloat p1)) (\<lambda>b1.
             bindE (math_pow2 bit_position) (\<lambda>p2.
             bindE (Pack_uint_of (VFloat p2)) (\<lambda>b2. Inr (b1 @ b2)))))
           else
             bindE (math_pow2 bit_position) (\<lambda>p1.
             bindE (Pack_uint_of (VFloat p1)) (\<lambda>b1.
             bindE (Pack_uint_of (VInt 0)) (\<lambda>b2. Inr (b1 @ b2))))))"

text \<open>
  \<open>write_body\<close> is the body of the \<^verbatim>\<open>try\<close> statement of \<^verbatim>\<open>writeable_value\<close>: it returns
  the bytes and the dictionary \<open>tag\<close>, which the bit branch updates.
\<close>

definition write_body ::
  "(string \<Rightarrow> (pyval \<Rightarrow> exn + bytes) option) \<Rightarrow> (string \<times> int) list \<Rightarrow> pydict \<Rightarrow> pyval \<Rightarrow>
     bool \<Rightarrow> int \<Rightarrow> bool \<Rightarrow> exn + bytes \<times> pydict" where
  "write_body Pack PCCC_CT tag val bit_field bit_position many =
     bindE (ditem tag ''file_type'') (\<lambda>ft.
       case ft of
         VStr file_type \<Rightarrow>
           (case Pack (''pccc_'' @ str_lower file_type) of
              None \<Rightarrow> Inl AttributeError
            | Some pack_func \<Rightarrow>
                if many then
                  bindE (py_iter val) (\<lambda>vals.
                  bindE (pack_all pack_func vals) (\<lambda>bs. Inr (bs, tag)))
                else if bit_field then
                  bindE (bit_write pack_func PCCC_CT file_type bit_position val) (\<lambda>bs.
                    Inr (bs, AList.update ''data_size'' (VInt 2) tag))
                else
                  bindE (pack_func val) (\<lambda>b. Inr (b, tag)))
       | _ \<Rightarrow> Inl AttributeError)"

text \<open>
  The first statements of \<^verbatim>\<open>writeable_value\<close>:
  \<^verbatim>\<open>bit_field = tag.get('address_field', 0) == 3\<close>,
  \<^verbatim>\<open>bit_position = int(tag.get('sub_element') or 0) if bit_field else 0\<close> and
  \<^verbatim>\<open>element_count = tag.get('element_count') or 1\<close>.
\<close>

definition bit_field_of :: "pydict \<Rightarrow> bool" where
  "bit_field_of tag = py_eq_int (dget tag ''address_field'' (VInt 0)) 3"

definition bit_position_of :: "pydict \<Rightarrow> exn + int" where
  "bit_position_of tag =
     (if bit_field_of tag then py_int (py_or (dget tag ''sub_element'' VNone) (VInt 0))
      else Inr 0)"

definition element_count_or_1 :: "pydict \<Rightarrow> pyval" where
  "element_count_or_1 tag = py_or (dget tag ''element_count'' VNone) (VInt 1)"

text \<open>
  \<^verbatim>\<open>writeable_value(tag, value)\<close>. An exception in the \<^verbatim>\<open>try\<close> statement is replaced by
  \<^verbatim>\<open>RequestError\<close>, whose message reads \<^verbatim>\<open>tag["tag"]\<close>; the exceptions of the statements
  before it leave the function as they are.
\<close>

definition writeable_value ::
  "(string \<Rightarrow> (pyval \<Rightarrow> exn + bytes) option) \<Rightarrow> (string \<times> int) list \<Rightarrow> pydict \<Rightarrow> pyval \<Rightarrow>
     exn + bytes \<times> pydict" where
  "writeable_value Pack PCCC_CT tag val =
     (case val of
        VBytes b \<Rightarrow> Inr (b, tag)
      | _ \<Rightarrow>
        bindE (bit_position_of tag) (\<lambda>bit_position.
        let element_count = element_count_or_1 tag in
        bindE (py_gt element_count 1) (\<lambda>many.
        bindE (if many then
                 bindE (py_len val) (\<lambda>len.
                   case py_num element_count of
                     None \<Rightarrow> Inl TypeError
                   | Some ec \<Rightarrow>
                       if of_nat len < ec then Inl RequestError
                       else if ec < of_nat len then py_prefix val element_count
                       else Inr val)
               else Inr val) (\<lambda>val'.
        case write_body Pack PCCC_CT tag val' (bit_field_of tag) bit_position many of
          Inl e \<Rightarrow> (case map_of tag ''tag'' of None \<Rightarrow> Inl KeyError | Some n \<Rightarrow> Inl RequestError)
        | Inr r \<Rightarrow> Inr r))))"

section \<open>Reply status\<close>

text \<open>
  Modelled from the spec: \<^verbatim>\<open>SUCCESS\<close> of \<^verbatim>\<open>const.py\<close> is not part of the sources; the
  specification gives the success status as the value \<^verbatim>\<open>0x00\<close>.
\<close>

definition SUCCESS :: int where
  "SUCCESS = 0"

text \<open>
  \<^verbatim>\<open>request_status(data)\<close>: \<^verbatim>\<open>data[58]\<close> raises \<^verbatim>\<open>IndexError\<close> on a buffer of fewer than
  59 bytes, and the \<^verbatim>\<open>except Exception\<close> clause turns that into the message
  \<^verbatim>\<open>'Unknown Status'\<close>. The error table \<^verbatim>\<open>PCCC_ERROR_CODE\<close> of \<^verbatim>\<open>const.py\<close> is a
  parameter. The result \<open>None\<close> is Python's \<^verbatim>\<open>None\<close> (success).
\<close>

definition request_status :: "(int \<times> string) list \<Rightarrow> bytes \<Rightarrow> string option" where
  "request_status PCCC_ERROR_CODE data =
     (if 58 < length data then
        (let status_code = uint (data ! 58) in
         if status_code = SUCCESS then None
         else Some (case map_of PCCC_ERROR_CODE status_code of
                      None \<Rightarrow> ''Unknown Status''
                    | Some msg \<Rightarrow> msg))
      else Some ''Unknown Status'')"

section \<open>The connection and the protocol tables\<close>

text \<open>
  The driver uses its connection through three things that \<^verbatim>\<open>cip_base.py\<close> provides and
  that are not part of the sources: the bytes of \<^verbatim>\<open>self._msg_start()\<close>, the property
  \<^verbatim>\<open>self._sequence\<close>, which yields the next transaction number, and the round trip
  \<^verbatim>\<open>new_request\<close>, \<^verbatim>\<open>add\<close>, \<^verbatim>\<open>send\<close>, which takes the bytes of a request and yields
  \<^verbatim>\<open>response.raw\<close>. They are parameters; \<open>'c\<close> is the state of the connection.
\<close>

record 'c driver =
  msg_start :: bytes
  sequence :: "'c \<Rightarrow> int \<times> 'c"
  send :: "'c \<Rightarrow> bytes \<Rightarrow> bytes \<times> 'c"

text \<open>
  The constants and tables of \<^verbatim>\<open>const.py\<close> and \<^verbatim>\<open>bytes_.py\<close> are parameters as well:
  \<open>cmd_code\<close>, \<open>fnc_read\<close> and \<open>fnc_write\<close> stand for \<^verbatim>\<open>SLC_CMD_CODE\<close>, \<^verbatim>\<open>SLC_FNC_READ\<close>
  and \<^verbatim>\<open>SLC_FNC_WRITE\<close>, \<open>data_size\<close> and \<open>data_type\<close> for \<^verbatim>\<open>PCCC_DATA_SIZE\<close> and
  \<^verbatim>\<open>PCCC_DATA_TYPE\<close>, \<open>ct\<close> for \<^verbatim>\<open>PCCC_CT\<close>, \<open>error_code\<close> for \<^verbatim>\<open>PCCC_ERROR_CODE\<close>, and
  \<open>pack\<close> and \<open>unpack\<close> for the entries of \<^verbatim>\<open>Pack\<close> and \<^verbatim>\<open>Unpack\<close> that are looked up by
  the name of a file type.
\<close>

record tables =
  cmd_code :: bytes
  fnc_read :: bytes
  fnc_write :: bytes
  data_size :: "(string \<times> int) list"
  data_type :: "(string \<times> bytes) list"
  ct :: "(string \<times> int) list"
  error_code :: "(int \<times> string) list"
  pack :: "string \<Rightarrow> (pyval \<Rightarrow> exn + bytes) option"
  unpack :: "string \<Rightarrow> (bytes \<Rightarrow> exn + pyval) option"

text \<open>
  Modelled from the spec: \<^verbatim>\<open>SLC_REPLY_START\<close> of \<^verbatim>\<open>const.py\<close> is not part of the sources;
  the specification has the payload of a reply begin at offset 61.
\<close>

definition SLC_REPLY_START :: nat where
  "SLC_REPLY_START = 61"

text \<open>The result object \<^verbatim>\<open>Tag(tag, value, type, error)\<close> of \<^verbatim>\<open>tag.py\<close>.\<close>

record Tag =
  t_tag :: pyval
  t_value :: pyval
  t_type :: pyval
  t_error :: pyval

text \<open>\<^verbatim>\<open>table[key]\<close> for a table with string keys.\<close>

definition table_item :: "(string \<times> 'a) list \<Rightarrow> pyval \<Rightarrow> exn + 'a" where
  "table_item tbl key =
     (case key of
        VStr k \<Rightarrow> (case map_of tbl k of None \<Rightarrow> Inl KeyError | Some v \<Rightarrow> Inr v)
      | _ \<Rightarrow> Inl KeyError)"

text \<open>The product of an integer of a table and a value of the dictionary.\<close>

definition times_int :: "int \<Rightarrow> pyval \<Rightarrow> exn + int" where
  "times_int a x =
     (case x of VInt b \<Rightarrow> Inr (a * b) | VBool b \<Rightarrow> Inr (if b then a else 0) | _ \<Rightarrow> Inl TypeError)"

section \<open>Reading a reply\<close>

text \<open>\<^verbatim>\<open>get_bit(value, idx)\<close> is \<^verbatim>\<open>(value & (1 << idx)) != 0\<close>.\<close>

definition get_bit :: "pyval \<Rightarrow> int \<Rightarrow> exn + bool" where
  "get_bit v idx =
     (if idx < 0 then Inl ValueError
      else case v of
             VInt n \<Rightarrow> Inr ((n AND push_bit (nat idx) 1) \<noteq> 0)
           | VBool b \<Rightarrow> Inr (((if b then 1 else 0) AND push_bit (nat idx) (1::int)) \<noteq> 0)
           | _ \<Rightarrow> Inl TypeError)"

text \<open>The slice \<^verbatim>\<open>data[i:j]\<close>, where a negative index counts from the end.\<close>

definition slice_index :: "nat \<Rightarrow> int \<Rightarrow> nat" where
  "slice_index len i = nat (if i < 0 then max 0 (int len + i) else min i (int len))"

definition py_slice :: "'a list \<Rightarrow> int \<Rightarrow> int \<Rightarrow> 'a list" where
  "py_slice xs i j =
     (let lo = slice_index (length xs) i; hi = slice_index (length xs) j
      in take (hi - lo) (drop lo xs))"

text \<open>
  \<^verbatim>\<open>[unpack_func(data[i: i + data_size]) for i in range(0, len(data), data_size)]\<close>:
  \<^verbatim>\<open>range\<close> raises \<^verbatim>\<open>ValueError\<close> for a step of zero and is empty for a negative step.
\<close>

function chunks :: "nat \<Rightarrow> 'a list \<Rightarrow> 'a list list" where
  "chunks n xs = (if n = 0 \<or> xs = [] then [] else take n xs # chunks n (drop n xs))"
  by pat_completeness auto
termination
  by (relation "measure (\<lambda>(n, xs). length xs)") auto

fun unpack_all :: "(bytes \<Rightarrow> exn + pyval) \<Rightarrow> bytes list \<Rightarrow> exn + pyval list" where
  "unpack_all unpack_func [] = Inr []"
| "unpack_all unpack_func (b # bs) =
     bindE (unpack_func b) (\<lambda>v. bindE (unpack_all unpack_func bs) (\<lambda>vs. Inr (v # vs)))"

definition values_list :: "(bytes \<Rightarrow> exn + pyval) \<Rightarrow> int \<Rightarrow> bytes \<Rightarrow> exn + pyval list" where
  "values_list unpack_func dsize data =
     (if dsize = 0 then Inl ValueError
      else if dsize < 0 then Inr []
      else unpack_all unpack_func (chunks (nat dsize) data))"

text \<open>
  The body of the \<^verbatim>\<open>try\<close> statement of \<^verbatim>\<open>_parse_read_reply\<close>. The order in which its
  steps fail is immaterial, since every exception is replaced by the same \<^verbatim>\<open>DataError\<close>.
\<close>

definition read_reply_body :: "tables \<Rightarrow> pydict \<Rightarrow> bytes \<Rightarrow> exn + Tag" where
  "read_reply_body K tag data =
     (let bit_read = py_eq_int (dget tag ''address_field'' (VInt 0)) 3 in
      bindE (py_int (py_or (dget tag ''sub_element'' VNone) (VInt 0))) (\<lambda>bit_position.
      bindE (ditem tag ''file_type'') (\<lambda>ft.
      bindE (table_item (data_size K) ft) (\<lambda>dsize.
      case ft of
        VStr file_type \<Rightarrow>
          (case unpack K (''pccc_'' @ str_lower file_type) of
             None \<Rightarrow> Inl AttributeError
           | Some unpack_func \<Rightarrow>
               bindE (ditem tag ''tag'') (\<lambda>name.
               if bit_read then
                 bindE (if file_type \<in> set [''T'', ''C''] then
                          bindE (table_item (ct K) (VStr ''PRE'')) (\<lambda>pre.
                            if bit_position = pre then Inr (Some 2)
                            else bindE (table_item (ct K) (VStr ''ACC'')) (\<lambda>acc.
                                   if bit_position = acc then Inr (Some 4) else Inr None))
                        else Inr None) (\<lambda>word_at.
                   case word_at of
                     Some i \<Rightarrow>
                       bindE (unpack_func (py_slice data i (i + dsize))) (\<lambda>v.
                         Inr \<lparr>t_tag = name, t_value = v, t_type = ft, t_error = VNone\<rparr>)
                   | None \<Rightarrow>
                       bindE (unpack_func (py_slice data 0 dsize)) (\<lambda>tag_value.
                       bindE (get_bit tag_value bit_position) (\<lambda>b.
                         Inr \<lparr>t_tag = name, t_value = VBool b, t_type = ft, t_error = VNone\<rparr>)))
               else
                 bindE (values_list unpack_func dsize data) (\<lambda>vs.
                   if 1 < length vs
                   then Inr \<lparr>t_tag = name, t_value = VList vs, t_type = ft, t_error = VNone\<rparr>
                   else (case vs of
                           [] \<Rightarrow> Inl IndexError
                         | v # _ \<Rightarrow>
                             Inr \<lparr>t_tag = name, t_value = v, t_type = ft, t_error = VNone\<rparr>))))
      | _ \<Rightarrow> Inl AttributeError))))"

text \<open>\<^verbatim>\<open>_parse_read_reply(tag, data)\<close>: every exception becomes \<^verbatim>\<open>DataError\<close>.\<close>

definition parse_read_reply :: "tables \<Rightarrow> pydict \<Rightarrow> bytes \<Rightarrow> exn + Tag" where
  "parse_read_reply K tag data =
     (case read_reply_body K tag data of Inl e \<Rightarrow> Inl DataError | Inr t \<Rightarrow> Inr t)"

section \<open>Reading and writing a tag\<close>

text \<open>
  The header fields that \<^verbatim>\<open>_read_tag\<close> and \<^verbatim>\<open>_write_tag\<close> build alike, after the function
  code: byte size, file number, file type code, element number and sub-element number.
\<close>

definition address_bytes :: "tables \<Rightarrow> pydict \<Rightarrow> exn + bytes" where
  "address_bytes K tag =
     bindE (ditem tag ''file_type'') (\<lambda>ft.
     bindE (table_item (data_size K) ft) (\<lambda>dsize.
     bindE (ditem tag ''element_count'') (\<lambda>ec.
     bindE (times_int dsize ec) (\<lambda>total.
     bindE (Pack_usint total) (\<lambda>b_size.
     bindE (ditem tag ''file_number'') (\<lambda>fno.
     bindE (py_int fno) (\<lambda>fno_int.
     bindE (Pack_usint fno_int) (\<lambda>b_file.
     bindE (table_item (data_type K) ft) (\<lambda>b_type.
     bindE (ditem tag ''element_number'') (\<lambda>eno.
     bindE (py_int eno) (\<lambda>eno_int.
     bindE (Pack_usint eno_int) (\<lambda>b_elem.
     bindE (py_int (dget tag ''pos_number'' (VInt 0))) (\<lambda>pos_int.
     bindE (Pack_usint pos_int) (\<lambda>b_pos.
       Inr (b_size @ b_file @ b_type @ b_elem @ b_pos)))))))))))))))"

definition read_request :: "tables \<Rightarrow> 'c driver \<Rightarrow> pydict \<Rightarrow> 'c \<Rightarrow> exn + bytes \<times> 'c" where
  "read_request K d tag c =
     (case sequence d c of
        (seq, c') \<Rightarrow>
          bindE (Pack_uint seq) (\<lambda>b_seq.
          bindE (address_bytes K tag) (\<lambda>b_addr.
            Inr (msg_start d @ cmd_code K @ [0] @ b_seq @ fnc_read K @ b_addr, c'))))"

text \<open>
  The statements of \<^verbatim>\<open>_read_tag\<close> after \<^verbatim>\<open>request.send()\<close>: a status other than \<^verbatim>\<open>None\<close>
  gives a \<^verbatim>\<open>Tag\<close> without value, and a \<^verbatim>\<open>DataError\<close> of \<^verbatim>\<open>_parse_read_reply\<close> is caught
  and gives a \<^verbatim>\<open>Tag\<close> without value as well.
\<close>

definition read_reply :: "tables \<Rightarrow> pydict \<Rightarrow> bytes \<Rightarrow> exn + Tag" where
  "read_reply K tag raw =
     (case request_status (error_code K) raw of
        Some status \<Rightarrow>
          bindE (ditem tag ''tag'') (\<lambda>name.
          bindE (ditem tag ''file_type'') (\<lambda>ft.
            Inr \<lparr>t_tag = name, t_value = VNone, t_type = ft, t_error = VStr status\<rparr>))
      | None \<Rightarrow>
          (case parse_read_reply K tag (drop SLC_REPLY_START raw) of
             Inr t \<Rightarrow> Inr t
           | Inl DataError \<Rightarrow>
               bindE (ditem tag ''tag'') (\<lambda>name.
               bindE (ditem tag ''file_type'') (\<lambda>ft.
                 Inr \<lparr>t_tag = name, t_value = VNone, t_type = ft,
                      t_error = VStr ''Failed parsing tag read reply''\<rparr>))
           | Inl e \<Rightarrow> Inl e))"

definition read_tag :: "tables \<Rightarrow> 'c driver \<Rightarrow> 'c \<Rightarrow> string \<Rightarrow> exn + Tag \<times> 'c" where
  "read_tag K d c tag =
     bindE (parse_tag (ct K) tag) (\<lambda>parsed.
       case parsed of
         None \<Rightarrow> Inl RequestError
       | Some tg \<Rightarrow>
           bindE (read_request K d tg c) (\<lambda>(request, c').
             case send d c' request of
               (raw, c'') \<Rightarrow> bindE (read_reply K tg raw) (\<lambda>t. Inr (t, c''))))"

text \<open>
  \<^verbatim>\<open>_write_tag\<close> first stores \<^verbatim>\<open>PCCC_DATA_SIZE[_tag['file_type']]\<close> under \<^verbatim>\<open>'data_size'\<close> and
  builds the byte size from that entry, which is the number that \<open>address_bytes\<close> reads
  from the table.
\<close>

definition write_request ::
  "tables \<Rightarrow> 'c driver \<Rightarrow> pydict \<Rightarrow> pyval \<Rightarrow> 'c \<Rightarrow> exn + bytes \<times> pydict \<times> 'c" where
  "write_request K d tag val c =
     bindE (ditem tag ''file_type'') (\<lambda>ft.
     bindE (table_item (data_size K) ft) (\<lambda>dsize.
       let tag1 = AList.update ''data_size'' (VInt dsize) tag in
       case sequence d c of
         (seq, c') \<Rightarrow>
           bindE (Pack_uint seq) (\<lambda>b_seq.
           bindE (address_bytes K tag1) (\<lambda>b_addr.
           bindE (writeable_value (pack K) (ct K) tag1 val) (\<lambda>(b_value, tag2).
             Inr (msg_start d @ cmd_code K @ [0] @ b_seq @ fnc_write K @ b_addr @ b_value,
                  tag2, c'))))))"

definition write_reply :: "tables \<Rightarrow> pydict \<Rightarrow> pyval \<Rightarrow> bytes \<Rightarrow> exn + Tag" where
  "write_reply K tag val raw =
     (case request_status (error_code K) raw of
        Some status \<Rightarrow>
          bindE (ditem tag ''tag'') (\<lambda>name.
          bindE (ditem tag ''file_type'') (\<lambda>ft.
            Inr \<lparr>t_tag = name, t_value = VNone, t_type = ft, t_error = VStr status\<rparr>))
      | None \<Rightarrow>
          bindE (ditem tag ''tag'') (\<lambda>name.
          bindE (ditem tag ''file_type'') (\<lambda>ft.
            Inr \<lparr>t_tag = name, t_value = val, t_type = ft, t_error = VNone\<rparr>)))"

definition write_tag :: "tables \<Rightarrow> 'c driver \<Rightarrow> 'c \<Rightarrow> string \<Rightarrow> pyval \<Rightarrow> exn + Tag \<times> 'c" where
  "write_tag K d c tag val =
     bindE (parse_tag (ct K) tag) (\<lambda>parsed.
       case parsed of
         None \<Rightarrow> Inl RequestError
       | Some tg \<Rightarrow>
           bindE (write_request K d tg val c) (\<lambda>(request, tg', c').
             case send d c' request of
               (raw, c'') \<Rightarrow> bindE (write_reply K tg' val raw) (\<lambda>t. Inr (t, c''))))"

section \<open>Reading the file directory\<close>

text \<open>
  The offset field of a directory chunk request:
  \<^verbatim>\<open>[b'\x00', Pack.usint(offset)] if offset < 256 else [b'\xFF', Pack.uint(offset)]\<close>.
  The offset starts at 0 and grows by \<^verbatim>\<open>len(data) // 2\<close>, so it is a natural number.
\<close>

definition chunk_offset :: "nat \<Rightarrow> exn + bytes" where
  "chunk_offset offset =
     (if offset < 256 then bindE (Pack_usint (int offset)) (\<lambda>b. Inr ([0x00] @ b))
      else bindE (Pack_uint (int offset)) (\<lambda>b. Inr ([0xFF] @ b)))"

text \<open>
  The bytes of a chunk request, \<^verbatim>\<open>msg_request\<close> in the loop of
  \<^verbatim>\<open>_read_whole_file_directory\<close>, for the transaction number \<open>seq\<close> that
  \<^verbatim>\<open>self._sequence\<close> has yielded.
\<close>

definition chunk_request ::
  "tables \<Rightarrow> 'c driver \<Rightarrow> bytes \<Rightarrow> int \<Rightarrow> nat \<Rightarrow> int \<Rightarrow> exn + bytes" where
  "chunk_request K d file_type csize offset seq =
     bindE (Pack_uint seq) (\<lambda>b_seq.
     bindE (Pack_usint csize) (\<lambda>b_size.
     bindE (chunk_offset offset) (\<lambda>b_offset.
       Inr (msg_start d @ cmd_code K @ [0] @ b_seq @ fnc_read K @ b_size @
            [0] @ file_type @ b_offset))))"

text \<open>
  The loop of \<^verbatim>\<open>_read_whole_file_directory\<close>. Nothing in the source bounds the number of
  its rounds (a reply without payload leaves the state as it was), so the model counts
  them down from \<open>fuel\<close> and yields \<open>None\<close> when none is left. Besides the data and the
  state of the connection the model returns the requests sent, each with the offset and
  the size asked for. A status other than \<^verbatim>\<open>None\<close> raises \<^verbatim>\<open>DataError\<close>.
\<close>

type_synonym chunk_log = "(nat \<times> int \<times> bytes) list"

fun read_chunks ::
  "nat \<Rightarrow> tables \<Rightarrow> 'c driver \<Rightarrow> bytes \<Rightarrow> int \<Rightarrow> bytes \<Rightarrow> nat \<Rightarrow> 'c \<Rightarrow> chunk_log \<Rightarrow>
     (exn + bytes \<times> 'c \<times> chunk_log) option" where
  "read_chunks 0 K d file_type file0_size file0_data offset c sent = None"
| "read_chunks (Suc fuel) K d file_type file0_size file0_data offset c sent =
     (if int (length file0_data) < file0_size then
        (let bytes_remaining = file0_size - int (length file0_data);
             csize = (if bytes_remaining > 0x50 then 0x50 else bytes_remaining)
         in case sequence d c of
              (seq, c') \<Rightarrow>
                (case chunk_request K d file_type csize offset seq of
                   Inl e \<Rightarrow> Some (Inl e)
                 | Inr request \<Rightarrow>
                     (case send d c' request of
                        (raw, c'') \<Rightarrow>
                          (case request_status (error_code K) raw of
                             None \<Rightarrow>
                               (let data = drop SLC_REPLY_START raw
                                in read_chunks fuel K d file_type file0_size
                                     (file0_data @ data) (offset + length data div 2) c''
                                     (sent @ [(offset, csize, request)]))
                           | Some status \<Rightarrow> Some (Inl DataError)))))
      else Some (Inr (file0_data, c, sent)))"

definition read_whole_file_directory ::
  "nat \<Rightarrow> tables \<Rightarrow> 'c driver \<Rightarrow> 'c \<Rightarrow> bytes \<Rightarrow> bytes \<Rightarrow> int \<Rightarrow>
     (exn + bytes \<times> 'c \<times> chunk_log) option" where
  "read_whole_file_directory fuel K d c file_type element file0_size =
     read_chunks fuel K d file_type file0_size [] 0 c []"

text \<open>The number of requests that a run of the loop has sent.\<close>

definition requests_issued :: "(exn + bytes \<times> 'c \<times> chunk_log) option \<Rightarrow> nat option" where
  "requests_issued r = (case r of Some (Inr (data, c, sent)) \<Rightarrow> Some (length sent) | _ \<Rightarrow> None)"

text \<open>
  The size byte of a chunk request follows the preamble, the command code, the status
  byte, the two bytes of the transaction number and the function code.
\<close>

definition requested_size :: "tables \<Rightarrow> 'c driver \<Rightarrow> bytes \<Rightarrow> nat" where
  "requested_size K d request =
     unat (request ! (length (msg_start d) + length (cmd_code K) + 3 + length (fnc_read K)))"

section \<open>A sample controller\<close>

text \<open>
  An instance of the parameters, on which the functions are run on concrete inputs: the
  numbers of the timer and counter fields, two error codes with their messages, sizes and
  type codes of the word files, and a packing function for the 2-byte signed integers
  that the specification gives for the word types.
\<close>

definition sample_ct :: "(string \<times> int) list" where
  "sample_ct =
     [(''PRE'', 1), (''ACC'', 2), (''EN'', 15), (''TT'', 14), (''DN'', 13), (''CU'', 15),
      (''CD'', 14), (''OV'', 12), (''UN'', 11), (''UA'', 10)]"

definition pack_int16 :: "pyval \<Rightarrow> exn + bytes" where
  "pack_int16 v =
     (case v of
        VInt n \<Rightarrow>
          if - 32768 \<le> n \<and> n < 32768
          then Inr [word_of_int (n mod 256), word_of_int (n div 256 mod 256)]
          else Inl StructError
      | VBool b \<Rightarrow> Inr [if b then 1 else 0, 0]
      | _ \<Rightarrow> Inl StructError)"

definition unpack_int16 :: "bytes \<Rightarrow> exn + pyval" where
  "unpack_int16 b =
     (case b of
        [lo, hi] \<Rightarrow> Inr (VInt (sint (word_cat hi lo :: 16 word)))
      | _ \<Rightarrow> Inl StructError)"

definition sample_pack :: "string \<Rightarrow> (pyval \<Rightarrow> exn + bytes) option" where
  "sample_pack name =
     (if name \<in> set [''pccc_n'', ''pccc_b'', ''pccc_t'', ''pccc_c'', ''pccc_s'']
      then Some pack_int16 else None)"

definition sample_unpack :: "string \<Rightarrow> (bytes \<Rightarrow> exn + pyval) option" where
  "sample_unpack name =
     (if name \<in> set [''pccc_n'', ''pccc_b'', ''pccc_t'', ''pccc_c'', ''pccc_s'']
      then Some unpack_int16 else None)"

definition sample_tables :: tables where
  "sample_tables =
     \<lparr>cmd_code = [0x0F], fnc_read = [0xA2], fnc_write = [0xAB],
      data_size = [(''N'', 2), (''B'', 2), (''T'', 2), (''C'', 2), (''S'', 2)],
      data_type = [(''N'', [0x89]), (''B'', [0x85]), (''T'', [0x86]), (''C'', [0x87]),
                   (''S'', [0x84])],
      ct = sample_ct,
      error_code = [(16, ''Illegal Command or Format''), (80, ''Address Problem'')],
      pack = sample_pack,
      unpack = sample_unpack\<rparr>"

text \<open>
  Two connections whose state counts the requests, the transaction number being the
  count modulo \<open>2 ^ 16\<close>. The first answers every request
  with status 0 and as many payload bytes as the size byte of a chunk request asks for;
  the second answers every request with status \<^verbatim>\<open>0x10\<close> and no payload.
\<close>

definition sample_msg_start :: bytes where
  "sample_msg_start = [0x4B, 0x02, 0x20, 0x67, 0x24, 0x01, 0x07, 0x09, 0x10, 0x19, 0x71, 0x19, 0x71]"

definition next_sequence :: "int \<Rightarrow> int \<times> int" where
  "next_sequence n = (n mod 65536, n + 1)"

definition send_full :: "int \<Rightarrow> bytes \<Rightarrow> bytes \<times> int" where
  "send_full c request = (replicate 61 0 @ replicate (unat (request ! 18)) 0xAA, c)"

definition send_refused :: "int \<Rightarrow> bytes \<Rightarrow> bytes \<times> int" where
  "send_refused c request = (replicate 58 0 @ [0x10, 0, 0], c)"

definition full_driver :: "int driver" where
  "full_driver = \<lparr>msg_start = sample_msg_start, sequence = next_sequence, send = send_full\<rparr>"

definition refusing_driver :: "int driver" where
  "refusing_driver =
     \<lparr>msg_start = sample_msg_start, sequence = next_sequence, send = send_refused\<rparr>"

section \<open>Sample addresses\<close>

text \<open>
  The dictionaries that \<open>parse_tag\<close> returns for \<^verbatim>\<open>N7:0/3\<close>, \<^verbatim>\<open>T4:1.ACC\<close>, \<^verbatim>\<open>N7:0{3}\<close>
  and \<^verbatim>\<open>N7:0\<close>.
\<close>

definition tag_N7_0_3 :: pydict where
  "tag_N7_0_3 =
     [(''file_type'', VStr ''N''), (''file_number'', VStr ''7''),
      (''element_number'', VStr ''0''), (''sub_element'', VStr ''3''),
      (''address_field'', VInt 3), (''element_count'', VInt 1), (''tag'', VStr ''N7:0/3'')]"

definition tag_T4_1_ACC :: pydict where
  "tag_T4_1_ACC =
     [(''file_type'', VStr ''T''), (''file_number'', VStr ''4''),
      (''element_number'', VStr ''1''), (''sub_element'', VInt 2),
      (''address_field'', VInt 3), (''element_count'', VInt 1), (''tag'', VStr ''T4:1.ACC'')]"

definition tag_N7_0_x3 :: pydict where
  "tag_N7_0_x3 =
     [(''file_type'', VStr ''N''), (''file_number'', VStr ''7''),
      (''element_number'', VStr ''0''), (''sub_element'', VNone),
      (''address_field'', VInt 2), (''element_count'', VInt 3), (''tag'', VStr ''N7:0'')]"

definition tag_N7_0 :: pydict where
  "tag_N7_0 =
     [(''file_type'', VStr ''N''), (''file_number'', VStr ''7''),
      (''element_number'', VStr ''0''), (''sub_element'', VNone),
      (''address_field'', VInt 2), (''element_count'', VInt 1), (''tag'', VStr ''N7:0'')]"

text \<open>A dictionary that has the keys \<^verbatim>\<open>'tag'\<close> and \<^verbatim>\<open>'file_type'\<close>.\<close>

definition has_name_and_type :: "pydict \<Rightarrow> bool" where
  "has_name_and_type d \<longleftrightarrow> (\<exists>v. map_of d ''tag'' = Some v) \<and> (\<exists>v. map_of d ''file_type'' = Some v)"

text \<open>
  \<open>re_fullmatch r s\<close>: the pattern \<open>r\<close> matches the whole of \<open>s\<close>, as \<^verbatim>\<open>re.fullmatch\<close> would
  find. \<open>parse_tag\<close> does not use it; it serves to say that a string is not an address
  as a whole.
\<close>

definition re_fullmatch :: "regex \<Rightarrow> string \<Rightarrow> bool" where
  "re_fullmatch r s = list_ex (\<lambda>(rest, cs). rest = []) (rmatch r s [])"

section \<open>Properties\<close>

subsection \<open>Auxiliary facts\<close>

lemma uint_byte_small: "0 \<le> n \<Longrightarrow> n < 256 \<Longrightarrow> uint (word_of_int n :: byte) = n"
  by (simp add: uint_word_of_int_eq take_bit_eq_mod)


lemma pack_all_map:
  "map pack_func vs = map Inr bss \<Longrightarrow> pack_all pack_func vs = Inr (concat bss)"
  by (induction vs arbitrary: bss) (auto simp: bindE_def)

lemma bindE_Inr: "bindE m f = Inr r \<longleftrightarrow> (\<exists>v. m = Inr v \<and> f v = Inr r)"
  by (cases m) (simp_all add: bindE_def)

lemma mkdict_keys: "mkdict kes = Inr d \<Longrightarrow> map fst d = map fst kes"
  by (induction kes arbitrary: d) (auto simp: bindE_Inr)

lemma return_dict_key:
  assumes "return_dict kes = Inr (Some d)" and "k \<in> set (map fst kes)"
  shows "\<exists>v. map_of d k = Some v"
proof -
  from assms(1) have "map fst d = map fst kes"
    by (auto simp: return_dict_def bindE_Inr dest: mkdict_keys)
  with assms(2) have "k \<in> fst ` set d" by (metis list.set_map)
  then show ?thesis by (metis map_of_eq_None_iff not_None_eq)
qed

lemma return_dict_has:
  "return_dict kes = Inr (Some d) \<Longrightarrow> ''tag'' \<in> set (map fst kes) \<Longrightarrow>
     ''file_type'' \<in> set (map fst kes) \<Longrightarrow> has_name_and_type d"
  unfolding has_name_and_type_def by (blast intro: return_dict_key)

lemma rule_timer_counter_has:
  "rule_timer_counter CT s = Inr (Some d) \<Longrightarrow> has_name_and_type d"
  unfolding rule_timer_counter_def
  by (auto simp: bindE_Inr split: option.splits if_splits elim!: return_dict_has)

lemma rule_word_has: "rule_word s = Inr (Some d) \<Longrightarrow> has_name_and_type d"
  unfolding rule_word_def
  by (auto simp: bindE_Inr split: option.splits if_splits elim!: return_dict_has)

lemma rule_io_has: "rule_io s = Inr (Some d) \<Longrightarrow> has_name_and_type d"
  unfolding rule_io_def
  by (auto simp: bindE_Inr split: option.splits if_splits elim!: return_dict_has)

lemma rule_string_like_has: "rule_string_like r s = Inr (Some d) \<Longrightarrow> has_name_and_type d"
  unfolding rule_string_like_def
  by (auto simp: bindE_Inr split: option.splits if_splits elim!: return_dict_has)

lemma rule_status_has: "rule_status s = Inr (Some d) \<Longrightarrow> has_name_and_type d"
  unfolding rule_status_def
  by (auto simp: bindE_Inr split: option.splits if_splits elim!: return_dict_has)

lemma rule_binary_bit_has: "rule_binary_bit s = Inr (Some d) \<Longrightarrow> has_name_and_type d"
  unfolding rule_binary_bit_def
  by (auto simp: bindE_Inr Let_def split: option.splits if_splits elim!: return_dict_has)

lemma first_rule_has:
  "first_rule rs s = Inr (Some d) \<Longrightarrow> (\<And>r d'. r \<in> set rs \<Longrightarrow> r s = Inr (Some d') \<Longrightarrow> P d') \<Longrightarrow> P d"
  by (induction rs) (auto split: sum.splits option.splits)

lemma parse_tag_has: "parse_tag CT s = Inr (Some d) \<Longrightarrow> has_name_and_type d"
  unfolding parse_tag_def
  by (erule first_rule_has)
     (auto dest: rule_timer_counter_has rule_word_has rule_io_has rule_string_like_has
        rule_status_has rule_binary_bit_has)

lemma Pack_uint_two:
  "0 \<le> n \<Longrightarrow> n < 65536 \<Longrightarrow> \<exists>lo hi. Pack_uint n = Inr [lo, hi]"
  by (simp add: Pack_uint_def)

lemma chunk_offset_some: "off < 65536 \<Longrightarrow> \<exists>bo. chunk_offset off = Inr bo"
  by (simp add: chunk_offset_def Pack_uint_def Pack_usint_def bindE_def)

lemma read_chunks_step:
  assumes full: "\<And>c request.
        request_status (error_code K) (fst (send d c request)) = None \<and>
        length (drop SLC_REPLY_START (fst (send d c request))) = requested_size K d request"
    and seq: "\<And>c. 0 \<le> fst (sequence d c) \<and> fst (sequence d c) < 65536"
    and more: "int (length data) < fsize"
    and cs: "csize = (if fsize - int (length data) > 0x50 then 0x50 else fsize - int (length data))"
    and off: "off < 65536"
  shows "\<exists>payload rq c''. length payload = nat csize \<and>
           read_chunks (Suc n) K d ft fsize data off c sent =
           read_chunks n K d ft fsize (data @ payload) (off + length payload div 2) c''
             (sent @ [(off, csize, rq)])"
proof -
  obtain sq c' where s: "sequence d c = (sq, c')" by force
  with seq [of c] have "0 \<le> sq" "sq < 65536" by simp_all
  then obtain lo hi where ps: "Pack_uint sq = Inr [lo, hi]" using Pack_uint_two by blast
  have c0: "0 < csize" "csize \<le> 80" using more cs by (auto split: if_splits)
  then have pz: "Pack_usint csize = Inr [word_of_int csize]" by (simp add: Pack_usint_def)
  obtain bo where po: "chunk_offset off = Inr bo" using chunk_offset_some [OF off] by blast
  define rq where "rq = msg_start d @ cmd_code K @ [0] @ [lo, hi] @ fnc_read K @
                          [word_of_int csize] @ [0] @ ft @ bo"
  obtain raw c'' where sd: "send d c' rq = (raw, c'')" by force
  from full [of c' rq] sd have st: "request_status (error_code K) raw = None"
    and ln: "length (drop SLC_REPLY_START raw) = requested_size K d rq" by simp_all
  have "requested_size K d rq = unat (word_of_int csize :: byte)"
    unfolding rq_def by (simp add: requested_size_def nth_append)
  also have "\<dots> = nat csize" using c0 by (simp add: unat_eq_nat_uint uint_byte_small)
  finally have rs: "length (drop SLC_REPLY_START raw) = nat csize" using ln by simp
  have "read_chunks (Suc n) K d ft fsize data off c sent =
        read_chunks n K d ft fsize (data @ drop SLC_REPLY_START raw)
          (off + length (drop SLC_REPLY_START raw) div 2) c'' (sent @ [(off, csize, rq)])"
    using s ps pz po sd st more cs [symmetric]
    by (simp add: chunk_request_def bindE_def Let_def rq_def)
  with rs show ?thesis by blast
qed


lemma full_driver_full:
  "request_status (error_code sample_tables) (fst (send full_driver c request)) = None \<and>
   length (drop SLC_REPLY_START (fst (send full_driver c request))) =
     requested_size sample_tables full_driver request"
  by (simp add: request_status_def SUCCESS_def full_driver_def send_full_def nth_append
        SLC_REPLY_START_def requested_size_def sample_tables_def sample_msg_start_def)

lemma full_driver_sequence:
  "0 \<le> fst (sequence full_driver c) \<and> fst (sequence full_driver c) < 65536"
  by (simp add: full_driver_def next_sequence_def)

lemma sequence_facts:
  assumes "py_iter val = Inr elems" and "\<And>b. val \<noteq> VBytes b"
  shows "py_len val = Inr (length elems)"
    and "0 \<le> n \<Longrightarrow> \<exists>val'. py_prefix val (VInt n) = Inr val' \<and> (\<forall>b. val' \<noteq> VBytes b) \<and>
           py_iter val' = Inr (take (nat n) elems)"
  using assms by (cases val; auto simp: prefix_len_def take_map)+

lemma not_bytes_case:
  assumes "\<And>b. val \<noteq> VBytes b"
  shows "(case val of VBytes b \<Rightarrow> f b | _ \<Rightarrow> g) = g"
proof (cases val)
  case (VBytes x)
  with assms [of x] show ?thesis by simp
qed simp_all

lemma write_body_tag:
  assumes "write_body Pack PCCC_CT tag val bf bp many = Inr (b, tag')"
  shows "tag' = tag \<or> tag' = AList.update ''data_size'' (VInt 2) tag"
  using assms unfolding write_body_def bindE_def
  by (simp split: sum.split_asm pyval.split_asm option.split_asm if_split_asm)

lemma reraise_Inr:
  "(case x of Inl e \<Rightarrow> (case m of None \<Rightarrow> Inl a | Some n \<Rightarrow> Inl b) | Inr r \<Rightarrow> Inr r) = Inr y
     \<longleftrightarrow> x = Inr y"
  by (cases x; cases m) auto

lemma writeable_value_tag:
  assumes "writeable_value Pack PCCC_CT tag val = Inr (b, tag')"
  shows "tag' = tag \<or> tag' = AList.update ''data_size'' (VInt 2) tag"
proof -
  have "tag' = tag \<or> (\<exists>v bp many. write_body Pack PCCC_CT tag v (bit_field_of tag) bp many = Inr (b, tag'))"
    using assms unfolding writeable_value_def
    by (cases val) (auto simp: bindE_Inr reraise_Inr Let_def)
  then show ?thesis using write_body_tag by blast
qed

lemma map_of_data_size:
  "k \<noteq> ''data_size'' \<Longrightarrow> map_of (AList.update ''data_size'' v tag) k = map_of tag k"
  by (simp add: update_conv')

lemma write_request_tag:
  assumes "write_request K d tag val c = Inr (wq, tag', c1)"
  shows "map_of tag' ''tag'' = map_of tag ''tag'' \<and>
         map_of tag' ''file_type'' = map_of tag ''file_type''"
proof -
  obtain sq c' where "sequence d c = (sq, c')" by force
  with assms obtain dsize b where
    "writeable_value (pack K) (ct K) (AList.update ''data_size'' (VInt dsize) tag) val = Inr (b, tag')"
    unfolding write_request_def
    by (auto simp: bindE_Inr Let_def)
  from writeable_value_tag [OF this] show ?thesis
    by (auto simp: map_of_data_size)
qed





subsection \<open>Reply status\<close>

text \<open>
  C8: for every reply buffer with fewer than 59 bytes, so that no byte exists at offset
  58, \<open>request_status\<close> returns the failure message \<^verbatim>\<open>Unknown Status\<close>; a truncated
  buffer is never reported as success (\<open>None\<close>).
\<close>

theorem request_status_truncated:
  "length data < 59 \<Longrightarrow>
     request_status PCCC_ERROR_CODE data = Some ''Unknown Status'' \<and>
     request_status PCCC_ERROR_CODE data \<noteq> None"
  by (simp add: request_status_def)

theorem request_status_truncated_witness:
  "length ([1, 2, 3] :: bytes) < 59 \<and>
   request_status [(16, ''Illegal command or format'')] [1, 2, 3] = Some ''Unknown Status'' \<and>
   request_status [(16, ''Illegal command or format'')] [1, 2, 3] \<noteq> None"
  using request_status_truncated [of "[1, 2, 3]" "[(16, ''Illegal command or format'')]"]
  by simp


text \<open>
  C4: the status of a reply is read at offset 58. The value 0 gives \<open>None\<close>, success;
  any other value is looked up in the table of error codes, a code that the table does
  not have giving \<^verbatim>\<open>Unknown Status\<close>. When the reply to the request of a read or of a
  write has a status other than \<open>None\<close>, \<open>read_tag\<close> and \<open>write_tag\<close> return, and do not
  raise: the result is a \<^verbatim>\<open>Tag\<close> with the name and the file type of the address, no
  value, and that message as its error.
\<close>

theorem status_byte_and_failed_tag:
  "(58 < length raw \<longrightarrow>
      request_status (error_code K) raw =
        (if raw ! 58 = 0 then None
         else Some (case map_of (error_code K) (uint (raw ! 58)) of
                      None \<Rightarrow> ''Unknown Status'' | Some msg \<Rightarrow> msg))) \<and>
   (\<forall>tg rq c1 c2 m.
      parse_tag (ct K) addr = Inr (Some tg) \<and> read_request K d tg c = Inr (rq, c1) \<and>
      send d c1 rq = (raw, c2) \<and> request_status (error_code K) raw = Some m \<longrightarrow>
      (\<exists>name ft. map_of tg ''tag'' = Some name \<and> map_of tg ''file_type'' = Some ft \<and>
         read_tag K d c addr =
           Inr (\<lparr>t_tag = name, t_value = VNone, t_type = ft, t_error = VStr m\<rparr>, c2))) \<and>
   (\<forall>tg wq tg' c1 c2 m.
      parse_tag (ct K) addr = Inr (Some tg) \<and> write_request K d tg val c = Inr (wq, tg', c1) \<and>
      send d c1 wq = (raw, c2) \<and> request_status (error_code K) raw = Some m \<longrightarrow>
      (\<exists>name ft. map_of tg ''tag'' = Some name \<and> map_of tg ''file_type'' = Some ft \<and>
         write_tag K d c addr val =
           Inr (\<lparr>t_tag = name, t_value = VNone, t_type = ft, t_error = VStr m\<rparr>, c2)))"
proof (intro conjI allI impI)
  assume "58 < length raw"
  then show "request_status (error_code K) raw =
        (if raw ! 58 = 0 then None
         else Some (case map_of (error_code K) (uint (raw ! 58)) of
                      None \<Rightarrow> ''Unknown Status'' | Some msg \<Rightarrow> msg))"
    by (simp add: request_status_def SUCCESS_def Let_def uint_0_iff)
next
  fix tg rq c1 c2 m
  assume a: "parse_tag (ct K) addr = Inr (Some tg) \<and> read_request K d tg c = Inr (rq, c1) \<and>
      send d c1 rq = (raw, c2) \<and> request_status (error_code K) raw = Some m"
  then obtain name ft where n: "map_of tg ''tag'' = Some name"
    and f: "map_of tg ''file_type'' = Some ft"
    using parse_tag_has [of "ct K" addr tg] by (auto simp: has_name_and_type_def)
  have "read_reply K tg raw =
      Inr \<lparr>t_tag = name, t_value = VNone, t_type = ft, t_error = VStr m\<rparr>"
    using a n f by (simp add: read_reply_def ditem_def bindE_def)
  then have "read_tag K d c addr =
      Inr (\<lparr>t_tag = name, t_value = VNone, t_type = ft, t_error = VStr m\<rparr>, c2)"
    using a by (simp add: read_tag_def bindE_def)
  with n f show "\<exists>name ft. map_of tg ''tag'' = Some name \<and> map_of tg ''file_type'' = Some ft \<and>
         read_tag K d c addr =
           Inr (\<lparr>t_tag = name, t_value = VNone, t_type = ft, t_error = VStr m\<rparr>, c2)"
    by blast
next
  fix tg wq tg' c1 c2 m
  assume a: "parse_tag (ct K) addr = Inr (Some tg) \<and> write_request K d tg val c = Inr (wq, tg', c1) \<and>
      send d c1 wq = (raw, c2) \<and> request_status (error_code K) raw = Some m"
  then obtain name ft where n: "map_of tg ''tag'' = Some name"
    and f: "map_of tg ''file_type'' = Some ft"
    using parse_tag_has [of "ct K" addr tg] by (auto simp: has_name_and_type_def)
  from a have k: "map_of tg' ''tag'' = Some name" "map_of tg' ''file_type'' = Some ft"
    using write_request_tag [of K d tg val c wq tg' c1] n f by simp_all
  have "write_reply K tg' val raw =
      Inr \<lparr>t_tag = name, t_value = VNone, t_type = ft, t_error = VStr m\<rparr>"
    using a k by (simp add: write_reply_def ditem_def bindE_def)
  then have "write_tag K d c addr val =
      Inr (\<lparr>t_tag = name, t_value = VNone, t_type = ft, t_error = VStr m\<rparr>, c2)"
    using a by (simp add: write_tag_def bindE_def)
  with n f show "\<exists>name ft. map_of tg ''tag'' = Some name \<and> map_of tg ''file_type'' = Some ft \<and>
         write_tag K d c addr val =
           Inr (\<lparr>t_tag = name, t_value = VNone, t_type = ft, t_error = VStr m\<rparr>, c2)"
    by blast
qed

text \<open>
  A read and a write of \<^verbatim>\<open>N7:0\<close> on the sample connection that answers every request with
  the status \<^verbatim>\<open>0x10\<close>.
\<close>

theorem status_byte_and_failed_tag_witness:
  "58 < length (replicate 58 0 @ [0x10, 0, 0] :: bytes) \<and>
   request_status (error_code sample_tables) (replicate 58 0 @ [0x10, 0, 0]) =
     Some ''Illegal Command or Format'' \<and>
   parse_tag (ct sample_tables) ''N7:0'' = Inr (Some tag_N7_0) \<and>
   read_request sample_tables refusing_driver tag_N7_0 7 =
     Inr (sample_msg_start @ [0x0F, 0, 7, 0, 0xA2, 2, 7, 0x89, 0, 0], 8) \<and>
   send refusing_driver 8 (sample_msg_start @ [0x0F, 0, 7, 0, 0xA2, 2, 7, 0x89, 0, 0]) =
     (replicate 58 0 @ [0x10, 0, 0], 8) \<and>
   read_tag sample_tables refusing_driver 7 ''N7:0'' =
     Inr (\<lparr>t_tag = VStr ''N7:0'', t_value = VNone, t_type = VStr ''N'',
            t_error = VStr ''Illegal Command or Format''\<rparr>, 8) \<and>
   write_request sample_tables refusing_driver tag_N7_0 (VInt 5) 7 =
     Inr (sample_msg_start @ [0x0F, 0, 7, 0, 0xAB, 2, 7, 0x89, 0, 0, 5, 0],
          AList.update ''data_size'' (VInt 2) tag_N7_0, 8) \<and>
   send refusing_driver 8 (sample_msg_start @ [0x0F, 0, 7, 0, 0xAB, 2, 7, 0x89, 0, 0, 5, 0]) =
     (replicate 58 0 @ [0x10, 0, 0], 8) \<and>
   write_tag sample_tables refusing_driver 7 ''N7:0'' (VInt 5) =
     Inr (\<lparr>t_tag = VStr ''N7:0'', t_value = VNone, t_type = VStr ''N'',
            t_error = VStr ''Illegal Command or Format''\<rparr>, 8)"
proof -
  let ?raw = "replicate 58 0 @ [0x10, 0, 0] :: bytes"
  let ?rq = "sample_msg_start @ [0x0F, 0, 7, 0, 0xA2, 2, 7, 0x89, 0, 0]"
  let ?wq = "sample_msg_start @ [0x0F, 0, 7, 0, 0xAB, 2, 7, 0x89, 0, 0, 5, 0]"
  have l: "58 < length ?raw" by simp
  have st: "request_status (error_code sample_tables) ?raw = Some ''Illegal Command or Format''"
    by code_simp
  have p: "parse_tag (ct sample_tables) ''N7:0'' = Inr (Some tag_N7_0)" by code_simp
  have rr: "read_request sample_tables refusing_driver tag_N7_0 7 = Inr (?rq, 8)" by code_simp
  have rs: "send refusing_driver 8 ?rq = (?raw, 8)"
    by (simp add: refusing_driver_def send_refused_def)
  have wr: "write_request sample_tables refusing_driver tag_N7_0 (VInt 5) 7 =
     Inr (?wq, AList.update ''data_size'' (VInt 2) tag_N7_0, 8)" by code_simp
  have ws: "send refusing_driver 8 ?wq = (?raw, 8)"
    by (simp add: refusing_driver_def send_refused_def)
  have n: "map_of tag_N7_0 ''tag'' = Some (VStr ''N7:0'')" by code_simp
  have f: "map_of tag_N7_0 ''file_type'' = Some (VStr ''N'')" by code_simp
  note th = status_byte_and_failed_tag [of ?raw sample_tables "''N7:0''" refusing_driver 7 "VInt 5"]
  from th have "parse_tag (ct sample_tables) ''N7:0'' = Inr (Some tag_N7_0) \<and>
      read_request sample_tables refusing_driver tag_N7_0 7 = Inr (?rq, 8) \<and>
      send refusing_driver 8 ?rq = (?raw, 8) \<and>
      request_status (error_code sample_tables) ?raw = Some ''Illegal Command or Format'' \<longrightarrow>
      (\<exists>name ft. map_of tag_N7_0 ''tag'' = Some name \<and> map_of tag_N7_0 ''file_type'' = Some ft \<and>
         read_tag sample_tables refusing_driver 7 ''N7:0'' =
           Inr (\<lparr>t_tag = name, t_value = VNone, t_type = ft,
                  t_error = VStr ''Illegal Command or Format''\<rparr>, 8))"
    by blast
  with p rr rs st n f
  have a: "read_tag sample_tables refusing_driver 7 ''N7:0'' =
     Inr (\<lparr>t_tag = VStr ''N7:0'', t_value = VNone, t_type = VStr ''N'',
            t_error = VStr ''Illegal Command or Format''\<rparr>, 8)"
    by auto
  from th have "parse_tag (ct sample_tables) ''N7:0'' = Inr (Some tag_N7_0) \<and>
      write_request sample_tables refusing_driver tag_N7_0 (VInt 5) 7 =
        Inr (?wq, AList.update ''data_size'' (VInt 2) tag_N7_0, 8) \<and>
      send refusing_driver 8 ?wq = (?raw, 8) \<and>
      request_status (error_code sample_tables) ?raw = Some ''Illegal Command or Format'' \<longrightarrow>
      (\<exists>name ft. map_of tag_N7_0 ''tag'' = Some name \<and> map_of tag_N7_0 ''file_type'' = Some ft \<and>
         write_tag sample_tables refusing_driver 7 ''N7:0'' (VInt 5) =
           Inr (\<lparr>t_tag = name, t_value = VNone, t_type = ft,
                  t_error = VStr ''Illegal Command or Format''\<rparr>, 8))"
    by blast
  with p wr ws st n f
  have b: "write_tag sample_tables refusing_driver 7 ''N7:0'' (VInt 5) =
     Inr (\<lparr>t_tag = VStr ''N7:0'', t_value = VNone, t_type = VStr ''N'',
            t_error = VStr ''Illegal Command or Format''\<rparr>, 8)"
    by auto
  from l st p rr rs a wr ws b show ?thesis by blast
qed

subsection \<open>Values to write\<close>

text \<open>
  C10: for every parsed tag and every value that is already a bytes object,
  \<open>writeable_value\<close> returns that bytes value unchanged (and leaves the tag as it is),
  whatever the element count, the address field and the file type of the tag are.
\<close>

theorem writeable_value_bytes:
  "writeable_value Pack PCCC_CT tag (VBytes b) = Inr (b, tag)"
  by (simp add: writeable_value_def)

text \<open>
  C3: the specification has a bit write, other than to the \<^verbatim>\<open>PRE\<close> or \<^verbatim>\<open>ACC\<close> field of a
  timer or counter, emit four bytes, a mask \<open>2 ^ k\<close> and a value half that is \<open>2 ^ k\<close> or
  0. The source hands \<^verbatim>\<open>Pack.uint\<close> the float that \<^verbatim>\<open>math.pow(2, bit_position)\<close> returns,
  and a packer of unsigned integers refuses a float. So for a file of type \<^verbatim>\<open>N\<close> the bit
  branch raises whatever the bit position and the value are, and \<open>writeable_value\<close>
  raises \<^verbatim>\<open>RequestError\<close> for the writes of \<^verbatim>\<open>True\<close> and of \<^verbatim>\<open>False\<close> to \<^verbatim>\<open>N7:0/3\<close>. The
  branch for \<^verbatim>\<open>PRE\<close> and \<^verbatim>\<open>ACC\<close> does not use \<^verbatim>\<open>math.pow\<close>: the write of 300 to
  \<^verbatim>\<open>T4:1.ACC\<close> emits \<^verbatim>\<open>0xFFFF\<close> followed by the packed scalar.
\<close>

theorem bit_write_raises:
  "(\<exists>e. bit_write pack_func PCCC_CT ''N'' k val = Inl e) \<and>
   math_pow2 3 = Inr 8 \<and> Pack_uint_of (VFloat 8) = Inl StructError \<and>
   writeable_value sample_pack sample_ct tag_N7_0_3 (VBool True) = Inl RequestError \<and>
   writeable_value sample_pack sample_ct tag_N7_0_3 (VBool False) = Inl RequestError \<and>
   writeable_value sample_pack sample_ct tag_T4_1_ACC (VInt 300) =
     Inr ([0xFF, 0xFF, 44, 1], AList.update ''data_size'' (VInt 2) tag_T4_1_ACC)"
proof -
  have g: "\<exists>e. bit_write pack_func PCCC_CT ''N'' k val = Inl e"
    by (simp add: bit_write_def bindE_def Pack_uint_of_def split: sum.splits)
  have e: "math_pow2 3 = Inr 8 \<and> Pack_uint_of (VFloat 8) = Inl StructError \<and>
   writeable_value sample_pack sample_ct tag_N7_0_3 (VBool True) = Inl RequestError \<and>
   writeable_value sample_pack sample_ct tag_N7_0_3 (VBool False) = Inl RequestError \<and>
   writeable_value sample_pack sample_ct tag_T4_1_ACC (VInt 300) =
     Inr ([0xFF, 0xFF, 44, 1], AList.update ''data_size'' (VInt 2) tag_T4_1_ACC)"
    by code_simp
  from g e show ?thesis by (rule conjI)
qed

text \<open>
  C7, as the code has it: for every write with an element count \<open>n > 1\<close> of a value that
  is not a bytes object, the value supplied must be a sequence of at least \<open>n\<close>
  elements: a shorter sequence raises \<^verbatim>\<open>RequestError\<close> and no bytes are produced, a
  longer sequence is cut to its first \<open>n\<close> elements, and otherwise each element is
  packed on its own and the results are concatenated in order. A bytes object is
  returned before the element count is looked at.
\<close>

theorem multi_element_write:
  assumes bp: "bit_position_of tag = Inr k"
    and ec: "element_count_or_1 tag = VInt n" and n: "1 < n"
    and ft: "map_of tag ''file_type'' = Some (VStr ft)"
    and pk: "Pack (''pccc_'' @ str_lower ft) = Some pack_func"
    and it: "py_iter val = Inr elems"
    and nb: "\<And>b. val \<noteq> VBytes b"
  shows "(int (length elems) < n \<longrightarrow>
            writeable_value Pack PCCC_CT tag val = Inl RequestError) \<and>
         (n \<le> int (length elems) \<longrightarrow>
            (\<forall>bss. map pack_func (take (nat n) elems) = map Inr bss \<longrightarrow>
               writeable_value Pack PCCC_CT tag val = Inr (concat bss, tag)))"
proof -
  have many: "py_gt (VInt n) 1 = Inr True" using n by (simp add: py_gt_def)
  have len: "py_len val = Inr (length elems)" using sequence_facts(1) [OF it nb] .
  have wv: "writeable_value Pack PCCC_CT tag val =
      bindE (if rat_of_nat (length elems) < rat_of_int n then Inl RequestError
             else if rat_of_int n < rat_of_nat (length elems) then py_prefix val (VInt n)
             else Inr val)
        (\<lambda>val'. case write_body Pack PCCC_CT tag val' (bit_field_of tag) k True of
            Inl e \<Rightarrow> (case map_of tag ''tag'' of None \<Rightarrow> Inl KeyError | Some n \<Rightarrow> Inl RequestError)
          | Inr r \<Rightarrow> Inr r)"
    using bp ec many len
    by (simp add: writeable_value_def not_bytes_case [OF nb] bindE_def)
  have body: "write_body Pack PCCC_CT tag v (bit_field_of tag) k True = Inr (concat bss, tag)"
    if "py_iter v = Inr es" "map pack_func es = map Inr bss" for v es bss
    using ft pk that pack_all_map [OF that(2)] by (simp add: write_body_def ditem_def bindE_def)
  have short: "writeable_value Pack PCCC_CT tag val = Inl RequestError"
    if "int (length elems) < n"
  proof -
    have "rat_of_nat (length elems) < rat_of_int n"
      using that by (metis of_int_less_iff of_int_of_nat_eq)
    then show ?thesis by (simp add: wv bindE_def)
  qed
  have long: "writeable_value Pack PCCC_CT tag val = Inr (concat bss, tag)"
    if l: "n \<le> int (length elems)" and m: "map pack_func (take (nat n) elems) = map Inr bss" for bss
  proof -
    have nlt: "\<not> rat_of_nat (length elems) < rat_of_int n"
      using l by (metis of_int_less_iff of_int_of_nat_eq not_less)
    show ?thesis
    proof (cases "n < int (length elems)")
      case True
      then have gt: "rat_of_int n < rat_of_nat (length elems)"
        by (metis of_int_less_iff of_int_of_nat_eq)
      obtain val' where pv: "py_prefix val (VInt n) = Inr val'"
        and iv: "py_iter val' = Inr (take (nat n) elems)"
        using sequence_facts(2) [OF it nb, of n] n by auto
      show ?thesis using nlt gt pv body [OF iv m] by (simp add: wv bindE_def)
    next
      case False
      with l have e: "int (length elems) = n" by simp
      then have ngt: "\<not> rat_of_int n < rat_of_nat (length elems)"
        by (metis of_int_less_iff of_int_of_nat_eq less_irrefl)
      have "take (nat n) elems = elems" using e by auto
      with m have m': "map pack_func elems = map Inr bss" by simp
      show ?thesis using nlt ngt body [OF it m'] by (simp add: wv bindE_def)
    qed
  qed
  show ?thesis using short long by blast
qed

text \<open>Two and four values written to \<^verbatim>\<open>N7:0{3}\<close>.\<close>

theorem multi_element_write_witness:
  "bit_position_of tag_N7_0_x3 = Inr 0 \<and> element_count_or_1 tag_N7_0_x3 = VInt 3 \<and>
   (1::int) < 3 \<and> map_of tag_N7_0_x3 ''file_type'' = Some (VStr ''N'') \<and>
   sample_pack (''pccc_'' @ str_lower ''N'') = Some pack_int16 \<and>
   py_iter (VList [VInt 1, VInt 2]) = Inr [VInt 1, VInt 2] \<and>
   int (length [VInt 1, VInt 2]) < 3 \<and>
   writeable_value sample_pack sample_ct tag_N7_0_x3 (VList [VInt 1, VInt 2]) = Inl RequestError \<and>
   py_iter (VList [VInt 1, VInt 2, VInt 3, VInt 4]) = Inr [VInt 1, VInt 2, VInt 3, VInt 4] \<and>
   3 \<le> int (length [VInt 1, VInt 2, VInt 3, VInt 4]) \<and>
   map pack_int16 (take (nat 3) [VInt 1, VInt 2, VInt 3, VInt 4]) =
     map Inr [[1, 0], [2, 0], [3, 0]] \<and>
   writeable_value sample_pack sample_ct tag_N7_0_x3 (VList [VInt 1, VInt 2, VInt 3, VInt 4]) =
     Inr ([1, 0, 2, 0, 3, 0], tag_N7_0_x3)"
proof -
  have h1: "bit_position_of tag_N7_0_x3 = Inr 0" by code_simp
  have h2: "element_count_or_1 tag_N7_0_x3 = VInt 3" by code_simp
  have h3: "(1::int) < 3" by simp
  have h4: "map_of tag_N7_0_x3 ''file_type'' = Some (VStr ''N'')" by code_simp
  have lh5: "str_lower ''N'' = ''n''" by code_simp
  have h5: "sample_pack (''pccc_'' @ str_lower ''N'') = Some pack_int16"
    by (simp add: sample_pack_def lh5)
  have i2: "py_iter (VList [VInt 1, VInt 2]) = Inr [VInt 1, VInt 2]" by simp
  have i4: "py_iter (VList [VInt 1, VInt 2, VInt 3, VInt 4]) = Inr [VInt 1, VInt 2, VInt 3, VInt 4]"
    by simp
  have s: "int (length [VInt 1, VInt 2]) < 3" by simp
  have l: "3 \<le> int (length [VInt 1, VInt 2, VInt 3, VInt 4])" by simp
  have m: "map pack_int16 (take (nat 3) [VInt 1, VInt 2, VInt 3, VInt 4]) =
     map Inr [[1, 0], [2, 0], [3, 0]]" by code_simp
  note mw = multi_element_write [where Pack = sample_pack and pack_func = pack_int16
      and PCCC_CT = sample_ct, OF h1 h2 h3 h4 h5]
  have nb: "\<And>xs b. VList xs \<noteq> VBytes b" by simp
  from mw [OF i2 nb] s
  have a: "writeable_value sample_pack sample_ct tag_N7_0_x3 (VList [VInt 1, VInt 2]) = Inl RequestError"
    by blast
  from mw [OF i4 nb] l m
  have "writeable_value sample_pack sample_ct tag_N7_0_x3 (VList [VInt 1, VInt 2, VInt 3, VInt 4]) =
     Inr (concat [[1, 0], [2, 0], [3, 0]], tag_N7_0_x3)"
    by blast
  then have b: "writeable_value sample_pack sample_ct tag_N7_0_x3 (VList [VInt 1, VInt 2, VInt 3, VInt 4]) =
     Inr ([1, 0, 2, 0, 3, 0], tag_N7_0_x3)" by simp
  from h1 h2 h3 h4 h5 i2 s a i4 l m b show ?thesis by blast
qed

text \<open>
  With the element count 3 of \<^verbatim>\<open>N7:0{3}\<close> a bytes object of one byte is shorter than the
  count, yet no \<^verbatim>\<open>RequestError\<close> is raised: the byte is returned.
\<close>

theorem multi_element_bytes_counterexample:
  "element_count_or_1 tag_N7_0_x3 = VInt 3 \<and> length [5 :: byte] < 3 \<and>
   writeable_value sample_pack sample_ct tag_N7_0_x3 (VBytes [5]) = Inr ([5], tag_N7_0_x3) \<and>
   writeable_value sample_pack sample_ct tag_N7_0_x3 (VBytes [5]) \<noteq> Inl RequestError"
  by code_simp

subsection \<open>The file directory\<close>



text \<open>
  C2, as the code has it: for a directory of 130 bytes, with the cap of \<^verbatim>\<open>0x50\<close> bytes on
  a chunk, a connection that answers every chunk request with status 0 and the number
  of bytes asked for, and fuel for three rounds, the loop sends exactly two requests: 80
  bytes at offset 0 and 50 bytes at offset 40. The offset advances by the length of the
  chunk divided by 2, that is, it counts words, and the loop returns once the 130 bytes
  have been gathered.
\<close>

theorem directory_read_130:
  assumes full: "\<And>c request.
        request_status (error_code K) (fst (send d c request)) = None \<and>
        length (drop SLC_REPLY_START (fst (send d c request))) = requested_size K d request"
    and seq: "\<And>c. 0 \<le> fst (sequence d c) \<and> fst (sequence d c) < 65536"
    and fuel: "3 \<le> fuel"
  shows "\<exists>data c' r1 r2.
           read_whole_file_directory fuel K d c file_type element 130 =
             Some (Inr (data, c', [(0, 80, r1), (40, 50, r2)])) \<and>
           length data = 130"
proof -
  obtain m where f: "fuel = Suc (Suc (Suc m))"
    using fuel by (metis add_Suc_right le_Suc_ex numeral_3_eq_3 add_Suc)
  have a1: "int (length ([] :: bytes)) < 130"
    and a2: "(80::int) = (if 130 - int (length ([] :: bytes)) > 0x50 then 0x50
                          else 130 - int (length ([] :: bytes)))"
    and a3: "(0::nat) < 65536" by simp_all
  obtain p1 r1 c1 where l1': "length p1 = nat 80"
    and s1: "read_chunks (Suc (Suc (Suc m))) K d file_type 130 [] 0 c [] =
             read_chunks (Suc (Suc m)) K d file_type 130 ([] @ p1) (0 + length p1 div 2) c1
               ([] @ [(0, 80, r1)])"
    using read_chunks_step [OF full seq a1 a2 a3, of "Suc (Suc m)" file_type c "[]"] by blast
  have l1: "length p1 = 80" using l1' by simp
  have b1: "int (length p1) < 130"
    and b2: "(50::int) = (if 130 - int (length p1) > 0x50 then 0x50 else 130 - int (length p1))"
    and b3: "(40::nat) < 65536" using l1 by simp_all
  obtain p2 r2 c2 where l2': "length p2 = nat 50"
    and s2: "read_chunks (Suc (Suc m)) K d file_type 130 p1 40 c1 [(0, 80, r1)] =
             read_chunks (Suc m) K d file_type 130 (p1 @ p2) (40 + length p2 div 2) c2
               ([(0, 80, r1)] @ [(40, 50, r2)])"
    using read_chunks_step [OF full seq b1 b2 b3, of "Suc m" file_type c1 "[(0, 80, r1)]"] by blast
  have l2: "length p2 = 50" using l2' by simp
  have e1: "read_chunks (Suc (Suc m)) K d file_type 130 ([] @ p1) (0 + length p1 div 2) c1
               ([] @ [(0, 80, r1)]) =
            read_chunks (Suc (Suc m)) K d file_type 130 p1 40 c1 [(0, 80, r1)]"
    using l1 by (simp del: read_chunks.simps)
  have "read_chunks (Suc m) K d file_type 130 (p1 @ p2) (40 + length p2 div 2) c2
          ([(0, 80, r1)] @ [(40, 50, r2)]) = Some (Inr (p1 @ p2, c2, [(0, 80, r1), (40, 50, r2)]))"
    using l1 l2 by simp
  with s1 s2 e1 have "read_whole_file_directory fuel K d c file_type element 130 =
      Some (Inr (p1 @ p2, c2, [(0, 80, r1), (40, 50, r2)]))"
    by (simp add: read_whole_file_directory_def f del: read_chunks.simps)
  moreover have "length (p1 @ p2) = 130" using l1 l2 by simp
  ultimately show ?thesis by blast
qed

text \<open>The loop on the sample connection that answers in full.\<close>

theorem directory_read_130_witness:
  "(\<forall>c request.
      request_status (error_code sample_tables) (fst (send full_driver c request)) = None \<and>
      length (drop SLC_REPLY_START (fst (send full_driver c request))) =
        requested_size sample_tables full_driver request) \<and>
   (\<forall>c. 0 \<le> fst (sequence full_driver c) \<and> fst (sequence full_driver c) < 65536) \<and>
   (3::nat) \<le> 5 \<and>
   (\<exists>data c' r1 r2.
      read_whole_file_directory 5 sample_tables full_driver 0 [1] [0x23] 130 =
        Some (Inr (data, c', [(0, 80, r1), (40, 50, r2)])) \<and>
      length data = 130)"
proof -
  have f: "(3::nat) \<le> 5" by simp
  from directory_read_130 [of sample_tables full_driver 5 0 "[1]" "[0x23]",
      OF full_driver_full full_driver_sequence f]
    full_driver_full full_driver_sequence f
  show ?thesis by blast
qed

text \<open>On that connection the loop sends two requests for the 130 bytes, not three.\<close>

theorem directory_read_130_counterexample:
  "requests_issued (read_whole_file_directory 5 sample_tables full_driver 0 [1] [0x23] 130) = Some 2 \<and>
   requests_issued (read_whole_file_directory 5 sample_tables full_driver 0 [1] [0x23] 130) \<noteq> Some 3"
  by code_simp

subsection \<open>Addresses\<close>

text \<open>
  C1: the specification has \<^verbatim>\<open>B3/20\<close> parsed to element number 1 and sub-element 4,
  the quotient and remainder of 20 by 16, with address field 3. The source divides with
  \<^verbatim>\<open>/\<close>, so that the element number is the float 1.25 and the sub-element,
  \<^verbatim>\<open>20 - 1.25 * 16\<close>, is 0.0; the address field is 3.
\<close>

theorem parse_binary_bit_B3_20:
  "parse_tag PCCC_CT ''B3/20'' =
     Inr (Some
       [(''file_type'', VStr ''B''), (''file_number'', VStr ''3''),
        (''element_number'', VFloat (5 / 4)), (''sub_element'', VFloat 0),
        (''address_field'', VInt 3), (''element_count'', VInt 1),
        (''tag'', VStr ''B3/20'')])"
  by code_simp

text \<open>
  C5: the specification has the count token stripped from the \<^verbatim>\<open>tag\<close> of every result.
  The bit form of the status rule stores \<^verbatim>\<open>t.group(0)\<close>, so that \<^verbatim>\<open>S:1/5{2}\<close> keeps its
  count token, whereas the word form \<^verbatim>\<open>S:1{2}\<close> of the same rule loses it.
\<close>

theorem parse_status_bit_keeps_count:
  "parse_tag PCCC_CT ''S:1/5{2}'' =
     Inr (Some
       [(''file_type'', VStr ''S''), (''file_number'', VStr ''2''),
        (''element_number'', VStr ''1''), (''sub_element'', VStr ''5''),
        (''address_field'', VInt 3), (''element_count'', VInt 2),
        (''tag'', VStr ''S:1/5{2}'')]) \<and>
   parse_tag PCCC_CT ''S:1{2}'' =
     Inr (Some
       [(''file_type'', VStr ''S''), (''file_number'', VStr ''2''),
        (''element_number'', VStr ''1''), (''address_field'', VInt 2),
        (''element_count'', VInt 2), (''tag'', VStr ''S:1'')])"
  by code_simp

text \<open>
  C9: \<open>parse_tag\<close> searches for a match anywhere in the input. No pattern matches the
  whole of \<^verbatim>\<open>XN7:0Y\<close>, yet \<open>parse_tag\<close> succeeds on it and returns what it returns for
  \<^verbatim>\<open>N7:0\<close>, the part of the input that the word pattern matches.
\<close>

theorem parse_tag_searches_inside:
  "parse_tag PCCC_CT ''XN7:0Y'' = Inr (Some tag_N7_0) \<and>
   parse_tag PCCC_CT ''XN7:0Y'' = parse_tag PCCC_CT ''N7:0'' \<and>
   list_all (\<lambda>r. \<not> re_fullmatch r ''XN7:0Y'')
     [re_timer_counter, re_word, re_io, re_string, re_ascii, re_status, re_binary_bit] \<and>
   re_fullmatch re_word ''N7:0''"
  by code_simp

end
